theory Spec2Isabelle
  imports Complex_Main "HOL-Library.Word"
begin

unbundle bit_operations_syntax

section \<open>Values of the Python program\<close>

text \<open>
  The service is one Flask module, \<^verbatim>\<open>Backend/face_recognition_api.py\<close>, with the
  handlers \<^verbatim>\<open>verify_faces\<close> (POST /verify) and \<^verbatim>\<open>health\<close> (GET /health).

  A parsed JSON document is a Python value: \<^verbatim>\<open>None\<close>, a bool, an int, a float, a
  str, a list or a dict. A dict is kept as the list of its items (keys distinct, as in
  a Python dict). A Python float is an IEEE 754 double: a finite double is modelled by
  the real number it denotes (the sign of a zero is not kept), and the arithmetic of
  the handler rounds every result to the nearest double, as the section on floating
  point below defines. A \<open>char\<close> stands for one code point of a Python \<^verbatim>\<open>str\<close>;
  the code points from 128 on are the non-ASCII ones.
\<close>

datatype json =
    JNull
  | JBool bool
  | JInt int
  | JFloat real
  | JStr string
  | JArr "json list"
  | JObj "(string \<times> json) list"

text \<open>A raised exception: its class name and its \<^verbatim>\<open>str(e)\<close>.\<close>

datatype py_exception = Raise (exc_type: string) (exc_str: string)

type_synonym bytes = "8 word list"
type_synonym path = string

text \<open>What a Flask view returns: the body given to \<^verbatim>\<open>jsonify\<close> and the status.\<close>

type_synonym response = "json \<times> nat"

text \<open>
  \<^verbatim>\<open>DeepFace.verify\<close> returns
  \<^verbatim>\<open>{'verified': True/False, 'distance': float, 'threshold': float}\<close>. The distance
  and the threshold are finite doubles, given by the real numbers they denote.
\<close>

record verify_result =
  verified :: bool
  distance :: real
  threshold :: real

section \<open>Python operations used by the handler\<close>

text \<open>\<^verbatim>\<open>type(v).__name__\<close> of a parsed JSON value.\<close>

fun type_name :: "json \<Rightarrow> string" where
  "type_name JNull = ''NoneType''"
| "type_name (JBool _) = ''bool''"
| "type_name (JInt _) = ''int''"
| "type_name (JFloat _) = ''float''"
| "type_name (JStr _) = ''str''"
| "type_name (JArr _) = ''list''"
| "type_name (JObj _) = ''dict''"

text \<open>The truth value Python gives a value in \<^verbatim>\<open>not data\<close>.\<close>

fun truthy :: "json \<Rightarrow> bool" where
  "truthy JNull = False"
| "truthy (JBool b) = b"
| "truthy (JInt i) = (i \<noteq> 0)"
| "truthy (JFloat r) = (r \<noteq> 0)"
| "truthy (JStr s) = (s \<noteq> [])"
| "truthy (JArr xs) = (xs \<noteq> [])"
| "truthy (JObj kvs) = (kvs \<noteq> [])"

text \<open>\<^verbatim>\<open>s.startswith(p)\<close>.\<close>

definition startswith :: "string \<Rightarrow> string \<Rightarrow> bool" where
  "startswith s p = (take (length p) s = p)"

text \<open>\<^verbatim>\<open>needle in hay\<close> on two strings: \<open>needle\<close> occurs as a contiguous part.\<close>

fun str_contains :: "string \<Rightarrow> string \<Rightarrow> bool" where
  "str_contains needle [] = (needle = [])"
| "str_contains needle (h # hs) =
     (startswith (h # hs) needle \<or> str_contains needle hs)"

text \<open>\<^verbatim>\<open>s.split(sep)\<close> for a separator of one character; never the empty list.\<close>

fun split_on :: "char \<Rightarrow> string \<Rightarrow> string list" where
  "split_on sep [] = [[]]"
| "split_on sep (x # xs) =
     (if x = sep then [] # split_on sep xs
      else (case split_on sep xs of
              [] \<Rightarrow> [[x]]
            | seg # segs \<Rightarrow> (x # seg) # segs))"

text \<open>
  \<^verbatim>\<open>key in data\<close>: a key of a dict, an element of a list, a part of a str; a
  \<^verbatim>\<open>TypeError\<close> on the values that are not containers.
\<close>

fun py_in :: "string \<Rightarrow> json \<Rightarrow> py_exception + bool" where
  "py_in k (JObj kvs) = Inr (k \<in> set (map fst kvs))"
| "py_in k (JArr xs) = Inr (JStr k \<in> set xs)"
| "py_in k (JStr s) = Inr (str_contains k s)"
| "py_in k v =
     Inl (Raise ''TypeError''
            (''argument of type '' @ [CHR 0x27] @ type_name v @ [CHR 0x27] @ '' is not iterable''))"

text \<open>\<^verbatim>\<open>data[key]\<close> with a str key.\<close>

fun py_getitem :: "json \<Rightarrow> string \<Rightarrow> py_exception + json" where
  "py_getitem (JObj kvs) k =
     (case map_of kvs k of
        None \<Rightarrow> Inl (Raise ''KeyError'' ([CHR 0x27] @ k @ [CHR 0x27]))
      | Some v \<Rightarrow> Inr v)"
| "py_getitem (JArr xs) k =
     Inl (Raise ''TypeError'' ''list indices must be integers or slices, not str'')"
| "py_getitem (JStr s) k =
     Inl (Raise ''TypeError''
            (''string indices must be integers, not '' @ [CHR 0x27] @ ''str'' @ [CHR 0x27]))"
| "py_getitem v k =
     Inl (Raise ''TypeError''
            ([CHR 0x27] @ type_name v @ [CHR 0x27] @ '' object is not subscriptable''))"

subsection \<open>\<^verbatim>\<open>base64.b64decode\<close>\<close>

text \<open>
  \<^verbatim>\<open>base64.b64decode(s)\<close> is called with its defaults: no alternative alphabet and
  \<^verbatim>\<open>validate=False\<close>. A str argument is first encoded as ASCII (a
  \<^verbatim>\<open>ValueError\<close> when it has a non-ASCII character), then
  \<^verbatim>\<open>binascii.a2b_base64\<close> scans it in its non-strict mode: a character outside the
  alphabet is skipped, a data character fills the next position of the current group
  of four, a pad character ends the scan once it completes a group that holds at least
  two data characters, and a group left incomplete at the end of the input is an error.
\<close>

text \<open>The value of a character of the alphabet; 64 for every other character.\<close>

definition table_a2b_base64 :: "char \<Rightarrow> 8 word" where
  "table_a2b_base64 c =
     (let n = of_char c :: nat in
      if 65 \<le> n \<and> n \<le> 90 then of_nat (n - 65)
      else if 97 \<le> n \<and> n \<le> 122 then of_nat (n - 71)
      else if 48 \<le> n \<and> n \<le> 57 then of_nat (n + 4)
      else if n = 43 then 62
      else if n = 47 then 63
      else 64)"

text \<open>
  The state of the scan: the position in the current group, the bits left over from
  the last data character, the pad characters seen since the last data character (they
  are counted only from position 2 on), and the bytes written, latest first.
\<close>

record a2b_state =
  quad_pos :: nat
  leftchar :: "8 word"
  pads :: nat
  bin_data :: bytes

definition a2b_init :: a2b_state where
  "a2b_init = \<lparr>quad_pos = 0, leftchar = 0, pads = 0, bin_data = []\<rparr>"

text \<open>One data character with value \<open>v\<close>: the \<^verbatim>\<open>switch (quad_pos)\<close> of the scan.\<close>

definition a2b_data :: "8 word \<Rightarrow> a2b_state \<Rightarrow> a2b_state" where
  "a2b_data v st =
     (if quad_pos st = 0 then
        st\<lparr>quad_pos := 1, leftchar := v, pads := 0\<rparr>
      else if quad_pos st = 1 then
        st\<lparr>quad_pos := 2, leftchar := v AND 0x0f, pads := 0,
           bin_data := (push_bit 2 (leftchar st) OR drop_bit 4 v) # bin_data st\<rparr>
      else if quad_pos st = 2 then
        st\<lparr>quad_pos := 3, leftchar := v AND 0x03, pads := 0,
           bin_data := (push_bit 4 (leftchar st) OR drop_bit 2 v) # bin_data st\<rparr>
      else
        st\<lparr>quad_pos := 0, leftchar := 0, pads := 0,
           bin_data := (push_bit 6 (leftchar st) OR v) # bin_data st\<rparr>)"

text \<open>
  The scan. \<open>Inr\<close> is the \<^verbatim>\<open>goto done\<close> of a completed pad sequence; \<open>Inl\<close> is
  the state at the end of the input.
\<close>

fun a2b_scan :: "string \<Rightarrow> a2b_state \<Rightarrow> a2b_state + a2b_state" where
  "a2b_scan [] st = Inl st"
| "a2b_scan (c # cs) st =
     (if c = CHR ''='' then
        (if 2 \<le> quad_pos st then
           (if 4 \<le> quad_pos st + (pads st + 1) then Inr st
            else a2b_scan cs (st\<lparr>pads := pads st + 1\<rparr>))
         else a2b_scan cs st)
      else if 64 \<le> table_a2b_base64 c then a2b_scan cs st
      else a2b_scan cs (a2b_data (table_a2b_base64 c) st))"

text \<open>Decimal digits of a number, for the message of the length error.\<close>

fun str_nat :: "nat \<Rightarrow> string" where
  "str_nat n =
     (if n < 10 then [char_of (48 + n)]
      else str_nat (n div 10) @ [char_of (48 + n mod 10)])"

declare str_nat.simps [simp del]

definition a2b_base64 :: "string \<Rightarrow> py_exception + bytes" where
  "a2b_base64 s =
     (case a2b_scan s a2b_init of
        Inr st \<Rightarrow> Inr (rev (bin_data st))
      | Inl st \<Rightarrow>
          if quad_pos st = 0 then Inr (rev (bin_data st))
          else if quad_pos st = 1 then
            Inl (Raise ''binascii.Error''
                   (''Invalid base64-encoded string: number of data characters (''
                    @ str_nat (length (bin_data st) div 3 * 4 + 1)
                    @ '') cannot be 1 more than a multiple of 4''))
          else Inl (Raise ''binascii.Error'' ''Incorrect padding''))"

definition b64decode :: "string \<Rightarrow> py_exception + bytes" where
  "b64decode s =
     (if \<exists>c \<in> set s. 128 \<le> (of_char c :: nat) then
        Inl (Raise ''ValueError'' ''string argument should contain only ASCII characters'')
      else a2b_base64 s)"

subsection \<open>Floating point\<close>

text \<open>
  The doubles are the numbers \<open>m * 2 ^ e\<close> with \<open>\<bar>m\<bar> < 2 ^ 53\<close> and
  \<open>- 1074 \<le> e \<le> 971\<close>. The result of an operation on floats is the exact result rounded
  to the nearest double, a tie going to the double with the even \<open>m\<close>; what rounds to
  \<open>2 ^ 1024\<close> or beyond is an infinity, for which the real number \<open>2 ^ 1024\<close> (with its
  sign) stands: it is larger than every double, and \<open>1.0 - inf\<close> is again an infinity.
\<close>

definition pow2 :: "int \<Rightarrow> real" where
  "pow2 e = (if 0 \<le> e then 2 ^ nat e else 1 / 2 ^ nat (- e))"

text \<open>
  The exponent \<open>e\<close> of the binade \<open>2 ^ e \<le> a < 2 ^ (e + 1)\<close> that holds a positive
  number, searched from 0 and kept between the least and the greatest exponent of a
  normal double.
\<close>

function exponent_up :: "int \<Rightarrow> real \<Rightarrow> int" where
  "exponent_up e a = (if 1023 \<le> e \<or> a < pow2 (e + 1) then e else exponent_up (e + 1) a)"
  by pat_completeness auto
termination
  by (relation "measure (\<lambda>(e, a). nat (1023 - e))") auto

function exponent_down :: "int \<Rightarrow> real \<Rightarrow> int" where
  "exponent_down e a = (if e \<le> - 1022 \<or> pow2 e \<le> a then e else exponent_down (e - 1) a)"
  by pat_completeness auto
termination
  by (relation "measure (\<lambda>(e, a). nat (e + 1022))") auto

declare exponent_up.simps [simp del] exponent_down.simps [simp del]

definition binade :: "real \<Rightarrow> int" where
  "binade a = (if 1 \<le> a then exponent_up 0 a else exponent_down 0 a)"

text \<open>Rounding to an integer, a tie going to the even one.\<close>

definition round_half_even :: "real \<Rightarrow> int" where
  "round_half_even y =
     (let f = \<lfloor>y\<rfloor>; r = y - of_int f in
      if r < 1/2 then f
      else if 1/2 < r then f + 1
      else if even f then f else f + 1)"

text \<open>
  The double nearest to a real number: a multiple of the spacing \<open>2 ^ (e - 52)\<close> of the
  doubles in the binade of the number.
\<close>

definition round_to_double :: "real \<Rightarrow> real" where
  "round_to_double x =
     (if x = 0 then 0
      else
        (let a = \<bar>x\<bar>;
             ulp = pow2 (binade a - 52);
             r = of_int (round_half_even (a / ulp)) * ulp
         in sgn x * (if pow2 1024 \<le> r then pow2 1024 else r)))"

text \<open>\<^verbatim>\<open>a / b\<close> for a divisor that is not zero, and \<^verbatim>\<open>a - b\<close>, on floats.\<close>

definition float_div :: "real \<Rightarrow> real \<Rightarrow> real" where
  "float_div a b = round_to_double (a / b)"

definition float_sub :: "real \<Rightarrow> real \<Rightarrow> real" where
  "float_sub a b = round_to_double (a - b)"

text \<open>
  \<^verbatim>\<open>round(x, 4)\<close> on a finite float: the decimal number with 4 digits after the point
  that is nearest to the exact value of \<open>x\<close>, a tie going to the even last digit,
  converted back to the nearest double.
\<close>

definition round4 :: "real \<Rightarrow> real" where
  "round4 x = round_to_double (of_int (round_half_even (x * 10000)) / 10000)"

section \<open>The world outside the handler\<close>

text \<open>
  The handler creates, writes and unlinks temporary files and calls
  \<^verbatim>\<open>DeepFace.verify\<close>. The state is the file system (path to content) and the list
  of the calls made so far, latest last.
\<close>

datatype event =
    Created path
  | Wrote path bytes
  | Verified path path
  | Unlinked path

record world =
  files :: "path \<Rightarrow> bytes option"
  calls :: "event list"

text \<open>
  What the handler cannot decide is a parameter: whether the application runs in debug
  mode, the text \<^verbatim>\<open>traceback.format_exc()\<close> gives for an exception, the name the
  \<open>n\<close>-th \<^verbatim>\<open>NamedTemporaryFile\<close> of the request picks (or its failure), a failure of
  the write to it, the outcome of \<^verbatim>\<open>DeepFace.verify\<close> on two paths of a file system,
  and a failure of \<^verbatim>\<open>os.unlink\<close> on a path.
\<close>

record env =
  app_debug :: bool
  format_exc :: "py_exception \<Rightarrow> string"
  tmp_name :: "nat \<Rightarrow> py_exception + path"
  tmp_write :: "nat \<Rightarrow> py_exception option"
  deepface_verify :: "(path \<Rightarrow> bytes option) \<Rightarrow> path \<Rightarrow> path \<Rightarrow> py_exception + verify_result"
  unlink_fault :: "path \<Rightarrow> py_exception option"

text \<open>
  \<^verbatim>\<open>with tempfile.NamedTemporaryFile(delete=False, suffix='.jpg') as f: f.write(data);
  path = f.name\<close>. The file is created exclusively, so a name already in use is a
  failure; \<^verbatim>\<open>delete=False\<close> leaves the created file in place when the write fails.
\<close>

definition stage_file :: "env \<Rightarrow> nat \<Rightarrow> bytes \<Rightarrow> world \<Rightarrow> (py_exception + path) \<times> world" where
  "stage_file E n img w =
     (case tmp_name E n of
        Inl e \<Rightarrow> (Inl e, w)
      | Inr p \<Rightarrow>
          if files w p \<noteq> None then
            (Inl (Raise ''FileExistsError''
                    ''[Errno 17] No usable temporary file name found''), w)
          else
            (let w1 = w\<lparr>files := (files w)(p \<mapsto> []), calls := calls w @ [Created p]\<rparr> in
             case tmp_write E n of
               Some e \<Rightarrow> (Inl e, w1)
             | None \<Rightarrow>
                 (Inr p, w1\<lparr>files := (files w1)(p \<mapsto> img), calls := calls w1 @ [Wrote p img]\<rparr>)))"

text \<open>\<^verbatim>\<open>os.unlink(p)\<close>: \<open>Some e\<close> when it raises.\<close>

definition os_unlink :: "env \<Rightarrow> path \<Rightarrow> world \<Rightarrow> py_exception option \<times> world" where
  "os_unlink E p w =
     (let w1 = w\<lparr>calls := calls w @ [Unlinked p]\<rparr> in
      case unlink_fault E p of
        Some e \<Rightarrow> (Some e, w1)
      | None \<Rightarrow>
          if files w1 p = None then
            (Some (Raise ''FileNotFoundError'' ''[Errno 2] No such file or directory''), w1)
          else (None, w1\<lparr>files := (files w1)(p := None)\<rparr>))"

text \<open>
  The \<^verbatim>\<open>finally\<close> block:
  \<^verbatim>\<open>try: os.unlink(ref_path); os.unlink(today_path)  except: pass\<close>.
\<close>

definition cleanup :: "env \<Rightarrow> path \<Rightarrow> path \<Rightarrow> world \<Rightarrow> world" where
  "cleanup E ref_path today_path w =
     (case os_unlink E ref_path w of
        (Some e, w1) \<Rightarrow> w1
      | (None, w1) \<Rightarrow> snd (os_unlink E today_path w1))"

section \<open>The handler of POST /verify\<close>

definition error_body :: "string \<Rightarrow> json" where
  "error_body msg =
     JObj [(''match'', JBool False), (''confidence'', JFloat 0), (''error'', JStr msg)]"

text \<open>
  Lines 30 to 33: \<^verbatim>\<open>if photo.startswith('data:'): photo = photo.split(',')[1]\<close>. A
  value that is not a str has no \<^verbatim>\<open>startswith\<close>.
\<close>

definition strip_data_url :: "json \<Rightarrow> py_exception + string" where
  "strip_data_url photo =
     (case photo of
        JStr s \<Rightarrow>
          if startswith s ''data:'' then
            (case split_on CHR '','' s of
               _ # part # _ \<Rightarrow> Inr part
             | _ \<Rightarrow> Inl (Raise ''IndexError'' ''list index out of range''))
          else Inr s
      | _ \<Rightarrow>
          Inl (Raise ''AttributeError''
                 ([CHR 0x27] @ type_name photo @ [CHR 0x27]
                  @ '' object has no attribute '' @ [CHR 0x27] @ ''startswith'' @ [CHR 0x27])))"

text \<open>The body of the first inner \<^verbatim>\<open>try\<close>, lines 29 to 36.\<close>

definition decode_images :: "json \<Rightarrow> json \<Rightarrow> py_exception + bytes \<times> bytes" where
  "decode_images reference_photo today_photo =
     (case strip_data_url reference_photo of
        Inl e \<Rightarrow> Inl e
      | Inr ref_b64 \<Rightarrow>
          (case strip_data_url today_photo of
             Inl e \<Rightarrow> Inl e
           | Inr today_b64 \<Rightarrow>
               (case b64decode ref_b64 of
                  Inl e \<Rightarrow> Inl e
                | Inr ref_img_data \<Rightarrow>
                    (case b64decode today_b64 of
                       Inl e \<Rightarrow> Inl e
                     | Inr today_img_data \<Rightarrow> Inr (ref_img_data, today_img_data)))))"

text \<open>
  Line 71: \<^verbatim>\<open>max(0.0, min(1.0, 1.0 - (distance / threshold)))\<close> on floats; the
  division raises on a zero threshold.
\<close>

definition confidence_of :: "real \<Rightarrow> real \<Rightarrow> py_exception + real" where
  "confidence_of d t =
     (if t = 0 then Inl (Raise ''ZeroDivisionError'' ''float division by zero'')
      else Inr (max 0 (min 1 (float_sub 1 (float_div d t)))))"

text \<open>Lines 64 to 78: the body of the second \<^verbatim>\<open>try\<close> after the call has returned.\<close>

definition success_response :: "verify_result \<Rightarrow> py_exception + response" where
  "success_response result =
     (case confidence_of (distance result) (threshold result) of
        Inl e \<Rightarrow> Inl e
      | Inr confidence \<Rightarrow>
          Inr (JObj [(''match'', JBool (verified result)),
                     (''confidence'', JFloat (round4 confidence)),
                     (''distance'', JFloat (round4 (distance result))),
                     (''threshold'', JFloat (round4 (threshold result)))], 200))"

text \<open>Lines 80 to 94: the \<^verbatim>\<open>except Exception as e\<close> of the second \<^verbatim>\<open>try\<close>.\<close>

definition capability_error_response :: "py_exception \<Rightarrow> response" where
  "capability_error_response e =
     (let error_msg = exc_str e in
      if str_contains ''Face could not be detected'' error_msg
         \<or> str_contains ''No face detected'' error_msg
      then (error_body ''Face could not be detected in one or both images'', 400)
      else (error_body (''Face recognition error: '' @ error_msg), 500))"

text \<open>Lines 53 to 101: the second \<^verbatim>\<open>try\<close> with its handler and its \<^verbatim>\<open>finally\<close>.\<close>

definition run_verification :: "env \<Rightarrow> path \<Rightarrow> path \<Rightarrow> world \<Rightarrow> response \<times> world" where
  "run_verification E ref_path today_path w =
     (let w1 = w\<lparr>calls := calls w @ [Verified ref_path today_path]\<rparr>;
          outcome =
            (case deepface_verify E (files w) ref_path today_path of
               Inl e \<Rightarrow> Inl e
             | Inr result \<Rightarrow> success_response result);
          resp = (case outcome of Inl e \<Rightarrow> capability_error_response e | Inr r \<Rightarrow> r)
      in (resp, cleanup E ref_path today_path w1))"

text \<open>
  Line 17: \<^verbatim>\<open>not data or 'reference_photo' not in data or 'today_photo' not in data\<close>,
  evaluated from left to right and stopping at the first true operand.
\<close>

definition missing_fields :: "json \<Rightarrow> py_exception + bool" where
  "missing_fields data =
     (if \<not> truthy data then Inr True
      else (case py_in ''reference_photo'' data of
              Inl e \<Rightarrow> Inl e
            | Inr has_ref \<Rightarrow>
                if \<not> has_ref then Inr True
                else (case py_in ''today_photo'' data of
                        Inl e \<Rightarrow> Inl e
                      | Inr has_today \<Rightarrow> Inr (\<not> has_today))))"

text \<open>Lines 44 to 101: the two temporary files, then the second \<^verbatim>\<open>try\<close>.\<close>

definition stage_and_verify ::
  "env \<Rightarrow> bytes \<Rightarrow> bytes \<Rightarrow> world \<Rightarrow> (py_exception + response) \<times> world" where
  "stage_and_verify E ref_img_data today_img_data w =
     (case stage_file E 0 ref_img_data w of
        (Inl e, w1) \<Rightarrow> (Inl e, w1)
      | (Inr ref_path, w1) \<Rightarrow>
          (case stage_file E 1 today_img_data w1 of
             (Inl e, w2) \<Rightarrow> (Inl e, w2)
           | (Inr today_path, w2) \<Rightarrow>
               (case run_verification E ref_path today_path w2 of
                  (resp, w3) \<Rightarrow> (Inr resp, w3))))"

text \<open>
  Lines 15 to 101: the body of the outer \<^verbatim>\<open>try\<close>. \<open>Inl e\<close> is an exception that
  leaves it. The argument \<open>request_json\<close> is what \<^verbatim>\<open>request.json\<close> on line 15
  evaluates to: the parsed body (\<open>JNull\<close> for the JSON text \<open>null\<close>), or the
  exception it raises, as it does for a request without a body or with a body that is
  not JSON.
\<close>

definition verify_faces_body ::
  "env \<Rightarrow> py_exception + json \<Rightarrow> world \<Rightarrow> (py_exception + response) \<times> world" where
  "verify_faces_body E request_json w =
     (case request_json of
        Inl e \<Rightarrow> (Inl e, w)
      | Inr data \<Rightarrow>
          (case missing_fields data of
             Inl e \<Rightarrow> (Inl e, w)
           | Inr True \<Rightarrow> (Inr (error_body ''Missing reference_photo or today_photo'', 400), w)
           | Inr False \<Rightarrow>
               (case py_getitem data ''reference_photo'' of
                  Inl e \<Rightarrow> (Inl e, w)
                | Inr reference_photo \<Rightarrow>
                    (case py_getitem data ''today_photo'' of
                       Inl e \<Rightarrow> (Inl e, w)
                     | Inr today_photo \<Rightarrow>
                         (case decode_images reference_photo today_photo of
                            Inl e \<Rightarrow>
                              (Inr (error_body (''Invalid base64 image data: '' @ exc_str e), 400), w)
                          | Inr (ref_img_data, today_img_data) \<Rightarrow>
                              stage_and_verify E ref_img_data today_img_data w)))))"

text \<open>Lines 13 to 109: the handler, with the \<^verbatim>\<open>except Exception as e\<close> of the outer \<^verbatim>\<open>try\<close>.\<close>

definition verify_faces :: "env \<Rightarrow> py_exception + json \<Rightarrow> world \<Rightarrow> response \<times> world" where
  "verify_faces E request_json w =
     (case verify_faces_body E request_json w of
        (Inr resp, w') \<Rightarrow> (resp, w')
      | (Inl e, w') \<Rightarrow>
          ((JObj [(''match'', JBool False),
                  (''confidence'', JFloat 0),
                  (''error'', JStr (''Server error: '' @ exc_str e)),
                  (''traceback'', if app_debug E then JStr (format_exc E e) else JNull)], 500),
           w'))"

section \<open>The handler of GET /health\<close>

definition health :: "world \<Rightarrow> response \<times> world" where
  "health w =
     ((JObj [(''status'', JStr ''ok''), (''service'', JStr ''face-recognition-api'')], 200), w)"

section \<open>Notions of the specification\<close>

text \<open>The specification's \<open>clamp(x, lo, hi)\<close>.\<close>

definition clamp :: "real \<Rightarrow> real \<Rightarrow> real \<Rightarrow> real" where
  "clamp x lo hi = (if x < lo then lo else if hi < x then hi else x)"

text \<open>
  A character of the base64 alphabet, and a string that is valid base64 in the sense of
  RFC 4648: only characters of the alphabet, then at most two pad characters, a multiple
  of four characters in all.
\<close>

definition is_b64_char :: "char \<Rightarrow> bool" where
  "is_b64_char c = (table_a2b_base64 c < 64)"

definition valid_base64 :: "string \<Rightarrow> bool" where
  "valid_base64 s =
     (let body = takeWhile (\<lambda>c. c \<noteq> CHR ''='') s;
          padding = dropWhile (\<lambda>c. c \<noteq> CHR ''='') s
      in length s mod 4 = 0 \<and> list_all is_b64_char body
         \<and> length padding \<le> 2 \<and> list_all (\<lambda>c. c = CHR ''='') padding)"

text \<open>
  The specification's stripping of a data URL: everything before and including the first
  comma is removed.
\<close>

definition after_first_comma :: "string \<Rightarrow> string" where
  "after_first_comma s = drop 1 (dropWhile (\<lambda>c. c \<noteq> CHR '','') s)"

text \<open>The part of a string before its first comma; all of it when it has none.\<close>

definition up_to_comma :: "string \<Rightarrow> string" where
  "up_to_comma s = takeWhile (\<lambda>c. c \<noteq> CHR '','') s"

section \<open>Example requests and environments\<close>

text \<open>
  An environment in which every external call succeeds and the capability reports a
  match at distance 0.125 under the threshold 0.5, an empty file system, a request with
  the two fields, and variants of the environment in which the capability fails or
  reports the doubles written \<open>0.00026\<close> and \<open>0.4\<close>.
\<close>

definition example_env :: env where
  "example_env =
     \<lparr>app_debug = False,
      format_exc = (\<lambda>e. ''Traceback (most recent call last): '' @ exc_type e),
      tmp_name = (\<lambda>n. Inr (if n = 0 then ''/tmp/tmpref.jpg'' else ''/tmp/tmptoday.jpg'')),
      tmp_write = (\<lambda>n. None),
      deepface_verify = (\<lambda>fs p q. Inr \<lparr>verified = True, distance = 1 / 8, threshold = 1 / 2\<rparr>),
      unlink_fault = (\<lambda>p. None)\<rparr>"

definition empty_world :: world where
  "empty_world = \<lparr>files = (\<lambda>p. None), calls = []\<rparr>"

definition example_request :: "json \<Rightarrow> json \<Rightarrow> py_exception + json" where
  "example_request reference_photo today_photo =
     Inr (JObj [(''reference_photo'', reference_photo), (''today_photo'', today_photo)])"

definition staged_world :: world where
  "staged_world =
     \<lparr>files = (\<lambda>p. None)(''/tmp/tmpref.jpg'' \<mapsto> [65, 66, 67], ''/tmp/tmptoday.jpg'' \<mapsto> [65, 66, 67]),
      calls = [Created ''/tmp/tmpref.jpg'', Wrote ''/tmp/tmpref.jpg'' [65, 66, 67],
               Created ''/tmp/tmptoday.jpg'', Wrote ''/tmp/tmptoday.jpg'' [65, 66, 67]]\<rparr>"

definition no_face_env :: env where
  "no_face_env =
     example_env\<lparr>deepface_verify :=
       (\<lambda>fs p q. Inl (Raise ''ValueError''
          (''Face could not be detected in '' @ p @ ''. Please confirm that the picture is a face photo'')))\<rparr>"

definition unreadable_env :: env where
  "unreadable_env =
     example_env\<lparr>deepface_verify :=
       (\<lambda>fs p q. Inl (Raise ''ValueError'' (''Input image must not have non-english characters: '' @ p)))\<rparr>"

definition zero_threshold_env :: env where
  "zero_threshold_env =
     example_env\<lparr>deepface_verify :=
       (\<lambda>fs p q. Inr \<lparr>verified = False, distance = 1 / 8, threshold = 0\<rparr>)\<rparr>"

definition rounding_env :: env where
  "rounding_env =
     example_env\<lparr>deepface_verify :=
       (\<lambda>fs p q. Inr \<lparr>verified = True, distance = round_to_double (26 / 100000),
                         threshold = round_to_double (4 / 10)\<rparr>)\<rparr>"

text \<open>
  What \<^verbatim>\<open>request.json\<close> gives for a request without a body: it raises, here with
  the text of a \<^verbatim>\<open>BadRequest\<close>.
\<close>

definition absent_payload :: "py_exception + json" where
  "absent_payload =
     Inl (Raise ''BadRequest''
            ''400 Bad Request: The browser (or proxy) sent a request that this server could not understand.'')"

text \<open>
  An environment in which the write to the second temporary file fails, and one in
  which the first temporary file cannot be unlinked.
\<close>

definition disk_full_env :: env where
  "disk_full_env =
     example_env\<lparr>tmp_write :=
       (\<lambda>n. if n = 1 then Some (Raise ''OSError'' ''[Errno 28] No space left on device'')
            else None)\<rparr>"

definition unlink_fault_env :: env where
  "unlink_fault_env =
     example_env\<lparr>unlink_fault :=
       (\<lambda>p. if p = ''/tmp/tmpref.jpg''
            then Some (Raise ''PermissionError'' ''[Errno 13] Permission denied'')
            else None)\<rparr>"

section \<open>Properties\<close>

subsection \<open>Requests with both fields\<close>

lemma map_of_key: "map_of kvs k = Some v \<Longrightarrow> k \<in> set (map fst kvs)"
  by (metis domI dom_map_of_conv_image_fst set_map)

lemma missing_fields_present:
  assumes "map_of kvs ''reference_photo'' = Some r" and "map_of kvs ''today_photo'' = Some t"
  shows "missing_fields (JObj kvs) = Inr False"
proof -
  have "kvs \<noteq> []" using assms(1) by auto
  moreover have "''reference_photo'' \<in> set (map fst kvs)" using assms(1) by (rule map_of_key)
  moreover have "''today_photo'' \<in> set (map fst kvs)" using assms(2) by (rule map_of_key)
  ultimately show ?thesis by (simp add: missing_fields_def)
qed

lemma verify_faces_body_fields:
  assumes "map_of kvs ''reference_photo'' = Some r" and "map_of kvs ''today_photo'' = Some t"
  shows "verify_faces_body E (Inr (JObj kvs)) w =
     (case decode_images r t of
        Inl e \<Rightarrow> (Inr (error_body (''Invalid base64 image data: '' @ exc_str e), 400), w)
      | Inr (a, b) \<Rightarrow> stage_and_verify E a b w)"
  using assms by (simp add: verify_faces_body_def missing_fields_present [OF assms])

text \<open>
  A request with both fields whose payloads decode and whose files are staged is
  answered by the second \<^verbatim>\<open>try\<close>.
\<close>

lemma verify_faces_staged:
  assumes "map_of kvs ''reference_photo'' = Some r" and "map_of kvs ''today_photo'' = Some t"
    and "decode_images r t = Inr (a, b)"
    and "stage_file E 0 a w = (Inr p, w1)"
    and "stage_file E 1 b w1 = (Inr q, w2)"
  shows "verify_faces E (Inr (JObj kvs)) w = run_verification E p q w2"
  using assms(3-5)
  by (simp add: verify_faces_def verify_faces_body_fields [OF assms(1,2)] stage_and_verify_def
      split: prod.splits)

lemma decode_error_400:
  assumes "map_of kvs ''reference_photo'' = Some r" and "map_of kvs ''today_photo'' = Some t"
    and "decode_images r t = Inl e"
  shows "verify_faces E (Inr (JObj kvs)) w =
           ((JObj [(''match'', JBool False), (''confidence'', JFloat 0),
                   (''error'', JStr (''Invalid base64 image data: '' @ exc_str e))], 400), w)"
  using assms(3)
  by (simp add: verify_faces_def verify_faces_body_fields [OF assms(1,2)] error_body_def)

lemmas decoder_defs =
  b64decode_def a2b_base64_def a2b_init_def a2b_data_def table_a2b_base64_def

lemmas example_defs = example_env_def empty_world_def example_request_def

lemma example_keys:
  "map_of [(''reference_photo'', r), (''today_photo'', t)] ''reference_photo'' = Some r"
  "map_of [(''reference_photo'', r), (''today_photo'', t)] ''today_photo'' = Some t"
  by simp_all

lemma b64decode_QUJD: "b64decode ''QUJD'' = Inr [65, 66, 67]"
  by (simp add: decoder_defs)

lemma decode_images_example: "decode_images (JStr ''QUJD'') (JStr ''QUJD'') = Inr ([65, 66, 67], [65, 66, 67])"
  by (simp add: decode_images_def strip_data_url_def startswith_def b64decode_QUJD)

lemma stage_example:
  assumes "tmp_name E = tmp_name example_env" and "tmp_write E = tmp_write example_env"
  shows "stage_file E 0 [65, 66, 67] empty_world =
           (Inr ''/tmp/tmpref.jpg'',
            \<lparr>files = (\<lambda>p. None)(''/tmp/tmpref.jpg'' \<mapsto> [65, 66, 67]),
             calls = [Created ''/tmp/tmpref.jpg'', Wrote ''/tmp/tmpref.jpg'' [65, 66, 67]]\<rparr>)"
    and "stage_file E 1 [65, 66, 67]
           \<lparr>files = (\<lambda>p. None)(''/tmp/tmpref.jpg'' \<mapsto> [65, 66, 67]),
            calls = [Created ''/tmp/tmpref.jpg'', Wrote ''/tmp/tmpref.jpg'' [65, 66, 67]]\<rparr> =
           (Inr ''/tmp/tmptoday.jpg'', staged_world)"
  using assms by (simp_all add: stage_file_def example_defs staged_world_def)

subsection \<open>The confidence of a successful verification\<close>

lemma round_half_even_bounds:
  assumes "of_int a \<le> y" and "y \<le> of_int b"
  shows "a \<le> round_half_even y \<and> round_half_even y \<le> b"
proof -
  have fa: "a \<le> \<lfloor>y\<rfloor>" using assms(1) by (simp add: le_floor_iff)
  have fb: "\<lfloor>y\<rfloor> \<le> b" using assms(2) by (simp add: floor_le_iff)
  show ?thesis
  proof (cases "\<lfloor>y\<rfloor> = b")
    case True
    then have "y - of_int \<lfloor>y\<rfloor> \<le> 0" using assms(2) by simp
    then show ?thesis using fa True by (simp add: round_half_even_def Let_def)
  next
    case False
    then have "\<lfloor>y\<rfloor> + 1 \<le> b" using fb by simp
    then show ?thesis using fa fb by (auto simp add: round_half_even_def Let_def)
  qed
qed

lemma pow2_pos: "0 < pow2 e"
  by (simp add: pow2_def)

lemma exponent_down_le: "exponent_down e a \<le> e"
proof (induction e a rule: exponent_down.induct)
  case (1 e a)
  show ?case
  proof (cases "e \<le> - 1022 \<or> pow2 e \<le> a")
    case True
    then show ?thesis by (subst exponent_down.simps) simp
  next
    case False
    then have "exponent_down (e - 1) a \<le> e - 1" by (rule "1.IH")
    then show ?thesis using False by (subst exponent_down.simps) simp
  qed
qed

lemma binade_unit:
  assumes "a \<le> 1"
  shows "binade a \<le> 0"
proof (cases "1 \<le> a")
  case True
  then have "a = 1" using assms by simp
  then show ?thesis by (simp add: binade_def exponent_up.simps pow2_def)
next
  case False
  then show ?thesis using exponent_down_le [of 0 a] by (simp add: binade_def)
qed

text \<open>
  Rounding to the nearest double, and with it rounding to 4 digits, keeps a value of
  the unit interval inside it.
\<close>

lemma round_to_double_unit:
  assumes "0 \<le> x" and "x \<le> 1"
  shows "0 \<le> round_to_double x \<and> round_to_double x \<le> 1"
proof (cases "x = 0")
  case True
  then show ?thesis by (simp add: round_to_double_def)
next
  case False
  then have pos: "0 < x" using assms(1) by simp
  define e where "e = binade x"
  define n where "n = (2::int) ^ nat (52 - e)"
  have e: "e \<le> 0" using binade_unit [OF assms(2)] by (simp add: e_def)
  have ulp: "pow2 (e - 52) = 1 / of_int n"
    using e by (simp add: pow2_def n_def)
  have npos: "0 < n" by (simp add: n_def)
  have "of_int 0 \<le> x / pow2 (e - 52)" "x / pow2 (e - 52) \<le> of_int n"
    using pos assms(2) npos by (simp_all add: ulp mult_left_le_one_le)
  from round_half_even_bounds [OF this]
  have r: "0 \<le> round_half_even (x / pow2 (e - 52))" "round_half_even (x / pow2 (e - 52)) \<le> n"
    by simp_all
  define r where "r = of_int (round_half_even (x / pow2 (e - 52))) * pow2 (e - 52)"
  have r0: "0 \<le> r" using r(1) pow2_pos [of "e - 52"] by (simp add: r_def)
  have "of_int (round_half_even (x / pow2 (e - 52))) \<le> (of_int n :: real)" using r(2) by simp
  then have r1: "r \<le> 1" using npos by (simp add: r_def ulp divide_le_eq)
  have "\<not> pow2 1024 \<le> r" using r1 by (simp add: pow2_def)
  then have "round_to_double x = r"
    using pos False by (simp add: round_to_double_def Let_def e_def r_def)
  then show ?thesis using r0 r1 by simp
qed

lemma round4_unit:
  assumes "0 \<le> x" and "x \<le> 1"
  shows "0 \<le> round4 x \<and> round4 x \<le> 1"
proof -
  have "of_int 0 \<le> x * 10000" "x * 10000 \<le> of_int 10000" using assms by simp_all
  from round_half_even_bounds [OF this]
  have "0 \<le> round_half_even (x * 10000)" "round_half_even (x * 10000) \<le> 10000" by simp_all
  then have "0 \<le> real_of_int (round_half_even (x * 10000)) / 10000"
    "real_of_int (round_half_even (x * 10000)) / 10000 \<le> 1"
    by simp_all
  then show ?thesis unfolding round4_def by (rule round_to_double_unit)
qed

text \<open>
  The value of a rounding, from the binade of the number and the multiple of the
  spacing; then the doubles of the examples. The doubles written \<open>0.00026\<close> and \<open>0.4\<close>
  have the quotient \<open>0.0006499999999999999\<close>, and 1.0 minus that is the double just
  below \<open>0.99935\<close>.
\<close>

lemma round_to_double_value:
  assumes "0 < x" and "binade x = e" and "round_half_even (x / pow2 (e - 52)) = n"
    and "of_int n * pow2 (e - 52) < pow2 1024"
  shows "round_to_double x = of_int n * pow2 (e - 52)"
  using assms by (simp add: round_to_double_def Let_def)

lemma double_quarter: "round_to_double (1 / 4) = 1 / 4"
proof -
  have "round_to_double (1 / 4) = of_int 4503599627370496 * pow2 (- 2 - 52)"
  proof (rule round_to_double_value)
    show "0 < (1 / 4 :: real)" by simp
    show "binade (1 / 4) = - 2"
      by (simp add: binade_def exponent_down.simps pow2_def)
    show "round_half_even ((1 / 4) / pow2 (- 2 - 52)) = 4503599627370496"
      by (simp add: round_half_even_def pow2_def)
    show "of_int 4503599627370496 * pow2 (- 2 - 52) < pow2 1024" by (simp add: pow2_def)
  qed
  then show ?thesis by (simp add: pow2_def)
qed

lemma double_three_quarters: "round_to_double (3 / 4) = 3 / 4"
proof -
  have "round_to_double (3 / 4) = of_int 6755399441055744 * pow2 (- 1 - 52)"
  proof (rule round_to_double_value)
    show "0 < (3 / 4 :: real)" by simp
    show "binade (3 / 4) = - 1"
      by (simp add: binade_def exponent_down.simps pow2_def)
    show "round_half_even ((3 / 4) / pow2 (- 1 - 52)) = 6755399441055744"
      by (simp add: round_half_even_def pow2_def)
    show "of_int 6755399441055744 * pow2 (- 1 - 52) < pow2 1024" by (simp add: pow2_def)
  qed
  then show ?thesis by (simp add: pow2_def)
qed

lemma double_eighth: "round_to_double (1 / 8) = 1 / 8"
proof -
  have "round_to_double (1 / 8) = of_int 4503599627370496 * pow2 (- 3 - 52)"
  proof (rule round_to_double_value)
    show "0 < (1 / 8 :: real)" by simp
    show "binade (1 / 8) = - 3"
      by (simp add: binade_def exponent_down.simps pow2_def)
    show "round_half_even ((1 / 8) / pow2 (- 3 - 52)) = 4503599627370496"
      by (simp add: round_half_even_def pow2_def)
    show "of_int 4503599627370496 * pow2 (- 3 - 52) < pow2 1024" by (simp add: pow2_def)
  qed
  then show ?thesis by (simp add: pow2_def)
qed

lemma double_half: "round_to_double (1 / 2) = 1 / 2"
proof -
  have "round_to_double (1 / 2) = of_int 4503599627370496 * pow2 (- 1 - 52)"
  proof (rule round_to_double_value)
    show "0 < (1 / 2 :: real)" by simp
    show "binade (1 / 2) = - 1"
      by (simp add: binade_def exponent_down.simps pow2_def)
    show "round_half_even ((1 / 2) / pow2 (- 1 - 52)) = 4503599627370496"
      by (simp add: round_half_even_def pow2_def)
    show "of_int 4503599627370496 * pow2 (- 1 - 52) < pow2 1024" by (simp add: pow2_def)
  qed
  then show ?thesis by (simp add: pow2_def)
qed

lemma double_distance: "round_to_double (26 / 100000) = 4796153459164483 / 18446744073709551616"
proof -
  have "round_to_double (26 / 100000) = of_int 4796153459164483 * pow2 (- 12 - 52)"
  proof (rule round_to_double_value)
    show "0 < (26 / 100000 :: real)" by simp
    show "binade (26 / 100000) = - 12"
      by (simp add: binade_def exponent_down.simps pow2_def)
    show "round_half_even ((26 / 100000) / pow2 (- 12 - 52)) = 4796153459164483"
      by (simp add: round_half_even_def pow2_def)
    show "of_int 4796153459164483 * pow2 (- 12 - 52) < pow2 1024" by (simp add: pow2_def)
  qed
  then show ?thesis by (simp add: pow2_def)
qed

lemma double_threshold: "round_to_double (4 / 10) = 3602879701896397 / 9007199254740992"
proof -
  have "round_to_double (4 / 10) = of_int 7205759403792794 * pow2 (- 2 - 52)"
  proof (rule round_to_double_value)
    show "0 < (4 / 10 :: real)" by simp
    show "binade (4 / 10) = - 2"
      by (simp add: binade_def exponent_down.simps pow2_def)
    show "round_half_even ((4 / 10) / pow2 (- 2 - 52)) = 7205759403792794"
      by (simp add: round_half_even_def pow2_def)
    show "of_int 7205759403792794 * pow2 (- 2 - 52) < pow2 1024" by (simp add: pow2_def)
  qed
  then show ?thesis by (simp add: pow2_def)
qed

lemma double_quotient: "round_to_double ((4796153459164483 / 18446744073709551616) / (3602879701896397 / 9007199254740992)) = 5995191823955603 / 9223372036854775808"
proof -
  have "round_to_double ((4796153459164483 / 18446744073709551616) / (3602879701896397 / 9007199254740992)) = of_int 5995191823955603 * pow2 (- 11 - 52)"
  proof (rule round_to_double_value)
    show "0 < ((4796153459164483 / 18446744073709551616) / (3602879701896397 / 9007199254740992) :: real)" by simp
    show "binade ((4796153459164483 / 18446744073709551616) / (3602879701896397 / 9007199254740992)) = - 11"
      by (simp add: binade_def exponent_down.simps pow2_def)
    show "round_half_even (((4796153459164483 / 18446744073709551616) / (3602879701896397 / 9007199254740992)) / pow2 (- 11 - 52)) = 5995191823955603"
      by (simp add: round_half_even_def pow2_def)
    show "of_int 5995191823955603 * pow2 (- 11 - 52) < pow2 1024" by (simp add: pow2_def)
  qed
  then show ?thesis by (simp add: pow2_def)
qed

lemma double_difference: "round_to_double (1 - 5995191823955603 / 9223372036854775808) = 4500672287612705 / 4503599627370496"
proof -
  have "round_to_double (1 - 5995191823955603 / 9223372036854775808) = of_int 9001344575225410 * pow2 (- 1 - 52)"
  proof (rule round_to_double_value)
    show "0 < (1 - 5995191823955603 / 9223372036854775808 :: real)" by simp
    show "binade (1 - 5995191823955603 / 9223372036854775808) = - 1"
      by (simp add: binade_def exponent_down.simps pow2_def)
    show "round_half_even ((1 - 5995191823955603 / 9223372036854775808) / pow2 (- 1 - 52)) = 9001344575225410"
      by (simp add: round_half_even_def pow2_def)
    show "of_int 9001344575225410 * pow2 (- 1 - 52) < pow2 1024" by (simp add: pow2_def)
  qed
  then show ?thesis by (simp add: pow2_def)
qed

lemma deepface_verify_update: "deepface_verify (E\<lparr>deepface_verify := f\<rparr>) = f"
  by simp

lemma example_success:
  "success_response \<lparr>verified = True, distance = 1 / 8, threshold = 1 / 2\<rparr> =
     Inr (JObj [(''match'', JBool True), (''confidence'', JFloat (3 / 4)),
                (''distance'', JFloat (1 / 8)), (''threshold'', JFloat (1 / 2))], 200)"
  by (simp add: success_response_def confidence_of_def float_div_def float_sub_def round4_def
      round_half_even_def double_quarter double_three_quarters double_eighth double_half)

lemma clamp_max_min: "max 0 (min 1 x) = clamp x 0 1"
  by (simp add: clamp_def max_def min_def)

text \<open>
  Claim C1. When both fields are present, both payloads decode, both files are staged
  and the capability returns a result with distance \<open>d\<close> and threshold \<open>t\<close>, the
  response with status 200 reports the match flag of the result, the confidence
  \<open>round(clamp(1 - d/t, 0, 1), 4)\<close> in the arithmetic of floats, which lies in
  \<open>[0,1]\<close>, and the distance and the threshold rounded to 4 decimal digits. The status
  is 200 exactly when \<open>t\<close> is not zero.
\<close>

theorem success_confidence:
  assumes "map_of kvs ''reference_photo'' = Some reference_photo"
    and "map_of kvs ''today_photo'' = Some today_photo"
    and "decode_images reference_photo today_photo = Inr (ref_img_data, today_img_data)"
    and "stage_file E 0 ref_img_data w = (Inr ref_path, w1)"
    and "stage_file E 1 today_img_data w1 = (Inr today_path, w2)"
    and "deepface_verify E (files w2) ref_path today_path = Inr result"
  shows "(threshold result \<noteq> 0 \<longrightarrow>
            fst (verify_faces E (Inr (JObj kvs)) w) =
              (JObj [(''match'', JBool (verified result)),
                     (''confidence'',
                        JFloat (round4 (clamp (float_sub 1
                                  (float_div (distance result) (threshold result))) 0 1))),
                     (''distance'', JFloat (round4 (distance result))),
                     (''threshold'', JFloat (round4 (threshold result)))], 200))
         \<and> (snd (fst (verify_faces E (Inr (JObj kvs)) w)) = 200 \<longleftrightarrow> threshold result \<noteq> 0)
         \<and> 0 \<le> round4 (clamp (float_sub 1 (float_div (distance result) (threshold result))) 0 1)
         \<and> round4 (clamp (float_sub 1 (float_div (distance result) (threshold result))) 0 1) \<le> 1"
proof -
  let ?c = "clamp (float_sub 1 (float_div (distance result) (threshold result))) 0 1"
  have run: "verify_faces E (Inr (JObj kvs)) w = run_verification E ref_path today_path w2"
    using assms(1-5) by (rule verify_faces_staged)
  have "0 \<le> ?c" "?c \<le> 1" by (simp_all add: clamp_def)
  then have range: "0 \<le> round4 ?c \<and> round4 ?c \<le> 1" by (rule round4_unit)
  have ok: "threshold result \<noteq> 0 \<Longrightarrow>
      fst (run_verification E ref_path today_path w2) =
        (JObj [(''match'', JBool (verified result)), (''confidence'', JFloat (round4 ?c)),
               (''distance'', JFloat (round4 (distance result))),
               (''threshold'', JFloat (round4 (threshold result)))], 200)"
    using assms(6)
    by (simp add: run_verification_def success_response_def confidence_of_def clamp_max_min Let_def)
  have zero: "threshold result = 0 \<Longrightarrow> snd (fst (run_verification E ref_path today_path w2)) \<noteq> 200"
    using assms(6)
    by (simp add: run_verification_def success_response_def confidence_of_def
        capability_error_response_def Let_def)
  show ?thesis using run range ok zero by auto
qed

text \<open>
  The theorem of C1 where the capability reports the doubles written \<open>0.00026\<close> and
  \<open>0.4\<close>: the response holds the doubles written \<open>0.9993\<close>, \<open>0.0003\<close> and \<open>0.4\<close>.
  (In exact arithmetic \<open>1 - d/t\<close> is above \<open>0.99935\<close> and would round to \<open>0.9994\<close>.)
\<close>

theorem success_confidence_witness:
  "fst (verify_faces rounding_env (example_request (JStr ''QUJD'') (JStr ''QUJD'')) empty_world) =
     (JObj [(''match'', JBool True),
            (''confidence'', JFloat (round_to_double (9993 / 10000))),
            (''distance'', JFloat (round_to_double (3 / 10000))),
            (''threshold'', JFloat (round_to_double (4 / 10)))], 200)
   \<and> 1 - round_to_double (26 / 100000) / round_to_double (4 / 10) > (99935 / 100000 :: real)"
proof -
  let ?d = "round_to_double (26 / 100000)" and ?t = "round_to_double (4 / 10)"
  let ?r = "\<lparr>verified = True, distance = ?d, threshold = ?t\<rparr>"
  have r: "deepface_verify rounding_env (files staged_world) ''/tmp/tmpref.jpg'' ''/tmp/tmptoday.jpg''
             = Inr ?r"
    by (simp only: rounding_env_def deepface_verify_update)
  have e: "tmp_name rounding_env = tmp_name example_env"
          "tmp_write rounding_env = tmp_write example_env"
    by (simp_all add: rounding_env_def)
  have q: "float_div ?d ?t = 5995191823955603 / 9223372036854775808"
    unfolding float_div_def double_distance double_threshold by (rule double_quotient)
  have s: "float_sub 1 (float_div ?d ?t) = 4500672287612705 / 4503599627370496"
    unfolding q float_sub_def by (rule double_difference)
  have c: "round4 (clamp (float_sub 1 (float_div ?d ?t)) 0 1) = round_to_double (9993 / 10000)"
    unfolding s by (simp add: round4_def clamp_def round_half_even_def)
  have d: "round4 ?d = round_to_double (3 / 10000)"
    unfolding double_distance by (simp add: round4_def round_half_even_def)
  have "round4 (3602879701896397 / 9007199254740992) = round_to_double (4 / 10)"
    by (simp add: round4_def round_half_even_def)
  then have t: "round4 ?t = ?t" by (simp only: double_threshold)
  have t0: "?t \<noteq> 0" unfolding double_threshold by simp
  have x: "1 - ?d / ?t > (99935 / 100000 :: real)"
    unfolding double_distance double_threshold by simp
  have "fst (verify_faces rounding_env (example_request (JStr ''QUJD'') (JStr ''QUJD'')) empty_world) =
     (JObj [(''match'', JBool True),
            (''confidence'', JFloat (round4 (clamp (float_sub 1 (float_div ?d ?t)) 0 1))),
            (''distance'', JFloat (round4 ?d)),
            (''threshold'', JFloat (round4 ?t))], 200)"
    using success_confidence [OF example_keys decode_images_example
        stage_example(1) [OF e] stage_example(2) [OF e] r] t0
    by (simp only: example_request_def verify_result.simps simp_thms)
  then show ?thesis using x by (simp only: c d t simp_thms)
qed

text \<open>
  Claim C9. When the capability returns a result whose threshold is 0, the division in
  the confidence formula raises, no confidence is computed, and the handler of the inner
  \<^verbatim>\<open>try\<close> reports the failure: status 500, match false, confidence 0.0 and the
  error "Face recognition error: float division by zero".
\<close>

theorem zero_threshold_500:
  assumes "map_of kvs ''reference_photo'' = Some reference_photo"
    and "map_of kvs ''today_photo'' = Some today_photo"
    and "decode_images reference_photo today_photo = Inr (ref_img_data, today_img_data)"
    and "stage_file E 0 ref_img_data w = (Inr ref_path, w1)"
    and "stage_file E 1 today_img_data w1 = (Inr today_path, w2)"
    and "deepface_verify E (files w2) ref_path today_path = Inr result"
    and "threshold result = 0"
  shows "fst (verify_faces E (Inr (JObj kvs)) w) =
           (JObj [(''match'', JBool False), (''confidence'', JFloat 0),
                  (''error'', JStr ''Face recognition error: float division by zero'')], 500)"
proof -
  have "verify_faces E (Inr (JObj kvs)) w = run_verification E ref_path today_path w2"
    using assms(1-5) by (rule verify_faces_staged)
  moreover have "\<not> str_contains ''Face could not be detected'' ''float division by zero''"
    by (simp add: startswith_def)
  moreover have "\<not> str_contains ''No face detected'' ''float division by zero''"
    by (simp add: startswith_def)
  ultimately show ?thesis
    using assms(6,7)
    by (simp add: run_verification_def success_response_def confidence_of_def
        capability_error_response_def error_body_def Let_def)
qed

text \<open>
  The theorem of C9 where the capability reports the distance 0.125 and the threshold 0.
\<close>

theorem zero_threshold_500_witness:
  "fst (verify_faces zero_threshold_env (example_request (JStr ''QUJD'') (JStr ''QUJD'')) empty_world) =
     (JObj [(''match'', JBool False), (''confidence'', JFloat 0),
            (''error'', JStr ''Face recognition error: float division by zero'')], 500)"
proof -
  let ?r = "\<lparr>verified = False, distance = 1 / 8, threshold = 0\<rparr>"
  have r: "deepface_verify zero_threshold_env (files staged_world) ''/tmp/tmpref.jpg'' ''/tmp/tmptoday.jpg''
             = Inr ?r"
    by (simp add: zero_threshold_env_def)
  have t: "threshold ?r = 0" by simp
  have e: "tmp_name zero_threshold_env = tmp_name example_env"
          "tmp_write zero_threshold_env = tmp_write example_env"
    by (simp_all add: zero_threshold_env_def)
  show ?thesis
    using zero_threshold_500 [OF example_keys decode_images_example
        stage_example(1) [OF e] stage_example(2) [OF e] r t]
    by (simp add: example_request_def)
qed

subsection \<open>Failures of the capability\<close>

text \<open>
  \<open>str_contains\<close> is Python's \<^verbatim>\<open>in\<close> on strings: the needle occurs somewhere in
  the text.
\<close>

lemma str_contains_iff: "str_contains n h \<longleftrightarrow> (\<exists>p s. h = p @ n @ s)"
proof (induction h)
  case Nil
  then show ?case by auto
next
  case (Cons x h)
  have "startswith (x # h) n \<longleftrightarrow> (\<exists>s. x # h = n @ s)"
    unfolding startswith_def by (metis append_eq_conv_conj append_take_drop_id)
  moreover have "(\<exists>p s. x # h = p @ n @ s) \<longleftrightarrow> (\<exists>s. x # h = n @ s) \<or> (\<exists>p s. h = p @ n @ s)"
  proof
    assume "\<exists>p s. x # h = p @ n @ s"
    then obtain p s where ps: "x # h = p @ n @ s" by blast
    show "(\<exists>s. x # h = n @ s) \<or> (\<exists>p s. h = p @ n @ s)"
    proof (cases p)
      case Nil
      then show ?thesis using ps by auto
    next
      case (Cons y p')
      then have "h = p' @ n @ s" using ps by simp
      then show ?thesis by blast
    qed
  next
    assume "(\<exists>s. x # h = n @ s) \<or> (\<exists>p s. h = p @ n @ s)"
    then show "\<exists>p s. x # h = p @ n @ s"
    proof
      assume "\<exists>s. x # h = n @ s"
      then obtain s where "x # h = [] @ n @ s" by auto
      then show ?thesis by blast
    next
      assume "\<exists>p s. h = p @ n @ s"
      then obtain p s where "x # h = (x # p) @ n @ s" by auto
      then show ?thesis by blast
    qed
  qed
  ultimately show ?case using Cons.IH by simp
qed

text \<open>
  Claim C3. When the capability raises an exception, the response is status 400 with
  the error "Face could not be detected in one or both images" if the text of the
  exception contains "Face could not be detected" or "No face detected", and status
  500 with the error "Face recognition error: " followed by that text otherwise; in both
  cases match is false and confidence is 0.0.
\<close>

theorem capability_failure_response:
  assumes "map_of kvs ''reference_photo'' = Some reference_photo"
    and "map_of kvs ''today_photo'' = Some today_photo"
    and "decode_images reference_photo today_photo = Inr (ref_img_data, today_img_data)"
    and "stage_file E 0 ref_img_data w = (Inr ref_path, w1)"
    and "stage_file E 1 today_img_data w1 = (Inr today_path, w2)"
    and "deepface_verify E (files w2) ref_path today_path = Inl e"
  shows "fst (verify_faces E (Inr (JObj kvs)) w) =
           (if (\<exists>a b. exc_str e = a @ ''Face could not be detected'' @ b)
               \<or> (\<exists>a b. exc_str e = a @ ''No face detected'' @ b)
            then (JObj [(''match'', JBool False), (''confidence'', JFloat 0),
                        (''error'', JStr ''Face could not be detected in one or both images'')], 400)
            else (JObj [(''match'', JBool False), (''confidence'', JFloat 0),
                        (''error'', JStr (''Face recognition error: '' @ exc_str e))], 500))"
proof -
  have "verify_faces E (Inr (JObj kvs)) w = run_verification E ref_path today_path w2"
    using assms(1-5) by (rule verify_faces_staged)
  then show ?thesis
    using assms(6)
    by (simp add: run_verification_def capability_error_response_def error_body_def Let_def
        str_contains_iff)
qed

text \<open>
  The theorem of C3 at a failure whose text names an undetected face and at a failure
  with another text.
\<close>

theorem capability_failure_response_witness:
  "fst (verify_faces no_face_env (example_request (JStr ''QUJD'') (JStr ''QUJD'')) empty_world) =
     (JObj [(''match'', JBool False), (''confidence'', JFloat 0),
            (''error'', JStr ''Face could not be detected in one or both images'')], 400)
   \<and> fst (verify_faces unreadable_env (example_request (JStr ''QUJD'') (JStr ''QUJD'')) empty_world) =
     (JObj [(''match'', JBool False), (''confidence'', JFloat 0),
            (''error'', JStr ''Face recognition error: Input image must not have non-english characters: /tmp/tmpref.jpg'')], 500)"
proof -
  let ?m1 = "''Face could not be detected in /tmp/tmpref.jpg. Please confirm that the picture is a face photo''"
  let ?m2 = "''Input image must not have non-english characters: /tmp/tmpref.jpg''"
  have r1: "deepface_verify no_face_env (files staged_world) ''/tmp/tmpref.jpg'' ''/tmp/tmptoday.jpg''
             = Inl (Raise ''ValueError'' ?m1)"
    by (simp add: no_face_env_def)
  have r2: "deepface_verify unreadable_env (files staged_world) ''/tmp/tmpref.jpg'' ''/tmp/tmptoday.jpg''
             = Inl (Raise ''ValueError'' ?m2)"
    by (simp add: unreadable_env_def)
  have e1: "tmp_name no_face_env = tmp_name example_env" "tmp_write no_face_env = tmp_write example_env"
    by (simp_all add: no_face_env_def)
  have e2: "tmp_name unreadable_env = tmp_name example_env" "tmp_write unreadable_env = tmp_write example_env"
    by (simp_all add: unreadable_env_def)
  have c1: "\<exists>a b. ?m1 = a @ ''Face could not be detected'' @ b"
    unfolding str_contains_iff [symmetric] by (simp add: startswith_def)
  have c2: "\<not> (\<exists>a b. ?m2 = a @ ''Face could not be detected'' @ b)"
    unfolding str_contains_iff [symmetric] by (simp add: startswith_def)
  have c3: "\<not> (\<exists>a b. ?m2 = a @ ''No face detected'' @ b)"
    unfolding str_contains_iff [symmetric] by (simp add: startswith_def)
  have w1: "fst (verify_faces no_face_env (example_request (JStr ''QUJD'') (JStr ''QUJD'')) empty_world) =
     (JObj [(''match'', JBool False), (''confidence'', JFloat 0),
            (''error'', JStr ''Face could not be detected in one or both images'')], 400)"
    using capability_failure_response [OF example_keys decode_images_example
        stage_example(1) [OF e1] stage_example(2) [OF e1] r1] c1
    by (simp only: example_request_def py_exception.sel if_True simp_thms)
  have w2: "fst (verify_faces unreadable_env (example_request (JStr ''QUJD'') (JStr ''QUJD'')) empty_world) =
     (JObj [(''match'', JBool False), (''confidence'', JFloat 0),
            (''error'', JStr (''Face recognition error: '' @ ?m2))], 500)"
    using capability_failure_response [OF example_keys decode_images_example
        stage_example(1) [OF e2] stage_example(2) [OF e2] r2] c2 c3
    by (simp only: example_request_def py_exception.sel if_False simp_thms)
  show ?thesis using w1 w2 by simp
qed

subsection \<open>Data URLs\<close>

lemma split_on_unfold:
  "split_on c s =
     takeWhile (\<lambda>x. x \<noteq> c) s #
       (case dropWhile (\<lambda>x. x \<noteq> c) s of [] \<Rightarrow> [] | _ # r \<Rightarrow> split_on c r)"
  by (induction s) (auto split: list.splits)

lemma split_on_second:
  "split_on CHR '','' s =
     (if CHR '','' \<in> set s
      then up_to_comma s # up_to_comma (after_first_comma s)
             # tl (split_on CHR '','' (after_first_comma s))
      else [s])"
proof (cases "CHR '','' \<in> set s")
  case True
  then have "dropWhile (\<lambda>x. x \<noteq> CHR '','') s \<noteq> []" by simp
  then obtain y r where yr: "dropWhile (\<lambda>x. x \<noteq> CHR '','') s = y # r"
    by (cases "dropWhile (\<lambda>x. x \<noteq> CHR '','') s") auto
  then have r: "after_first_comma s = r" by (simp add: after_first_comma_def)
  have "split_on CHR '','' s = up_to_comma s # split_on CHR '','' r"
    using yr by (subst split_on_unfold) (simp add: up_to_comma_def)
  moreover have "\<exists>rest. split_on CHR '','' r = up_to_comma r # rest"
    by (subst split_on_unfold) (simp add: up_to_comma_def)
  then have "split_on CHR '','' r = up_to_comma r # tl (split_on CHR '','' r)"
    by auto
  ultimately show ?thesis using True r by simp
next
  case False
  then have d: "dropWhile (\<lambda>x. x \<noteq> CHR '','') s = []"
    and t: "takeWhile (\<lambda>x. x \<noteq> CHR '','') s = s"
    by (auto simp add: takeWhile_eq_all_conv)
  have "split_on CHR '','' s = [s]"
    by (subst split_on_unfold) (simp only: d t list.case)
  then show ?thesis using False by simp
qed

text \<open>
  What \<^verbatim>\<open>split(',')[1]\<close> selects.
\<close>

lemma strip_data_url_str:
  "strip_data_url (JStr s) =
     (if startswith s ''data:'' then
        (if CHR '','' \<in> set s then Inr (up_to_comma (after_first_comma s))
         else Inl (Raise ''IndexError'' ''list index out of range''))
      else Inr s)"
  by (simp add: strip_data_url_def split_on_second)

lemma one_comma_rest:
  assumes "count_list s CHR '','' = 1"
  shows "up_to_comma (after_first_comma s) = after_first_comma s"
proof -
  have split: "s = takeWhile (\<lambda>x. x \<noteq> CHR '','') s @ dropWhile (\<lambda>x. x \<noteq> CHR '','') s" by simp
  have c0: "count_list (takeWhile (\<lambda>x. x \<noteq> CHR '','') s) CHR '','' = 0"
    by (metis (mono_tags, lifting) count_list_0_iff set_takeWhileD)
  have "CHR '','' \<in> set s" using assms by (metis count_list_0_iff zero_neq_one)
  then have "dropWhile (\<lambda>x. x \<noteq> CHR '','') s \<noteq> []" by simp
  then obtain y r where yr: "dropWhile (\<lambda>x. x \<noteq> CHR '','') s = y # r"
    by (cases "dropWhile (\<lambda>x. x \<noteq> CHR '','') s") auto
  then have y: "y = CHR '',''" by (metis (full_types) hd_dropWhile list.sel(1) list.simps(3))
  have "count_list s CHR '','' = count_list (takeWhile (\<lambda>x. x \<noteq> CHR '','') s) CHR '','' + count_list (y # r) CHR '',''"
    by (metis split yr count_list_append)
  then have "count_list r CHR '','' = 0" using assms c0 y by simp
  then have "CHR '','' \<notin> set r" by (simp add: count_list_0_iff)
  then have "takeWhile (\<lambda>x. x \<noteq> CHR '','') r = r" by (auto simp add: takeWhile_eq_all_conv)
  moreover have "after_first_comma s = r" using yr by (simp add: after_first_comma_def)
  ultimately show ?thesis by (simp add: up_to_comma_def)
qed

text \<open>
  Claim C4 as stated fails on a field with a second comma: the handler decodes the text
  between the first and the second comma (three bytes here), not everything after the
  first comma (which decodes to six bytes).
\<close>

theorem data_url_counterexample:
  "startswith ''data:image/jpeg;base64,QUJD,REVG'' ''data:''
   \<and> decode_images (JStr ''data:image/jpeg;base64,QUJD,REVG'') (JStr ''QUJD'')
       = Inr ([65, 66, 67], [65, 66, 67])
   \<and> b64decode (after_first_comma ''data:image/jpeg;base64,QUJD,REVG'')
       = Inr [65, 66, 67, 68, 69, 70]"
  by (simp add: decode_images_def strip_data_url_def startswith_def after_first_comma_def
      decoder_defs)

text \<open>
  Claim C4, amended. For a field whose string value starts with "data:", the handler
  base64-decodes the text between the first comma and the next comma or the end of the
  string; this is everything after the first comma when the value has exactly one
  comma. A value with the marker and no comma raises an \<^verbatim>\<open>IndexError\<close>: in either
  field it gives the status 400 with an error that begins "Invalid base64 image data: ",
  and the error is "Invalid base64 image data: list index out of range" when the value
  is the reference photo, or is today's photo and the stripping of the reference photo
  has not raised before. A string that does not start with the marker is decoded
  unchanged.
\<close>

theorem data_url_segment:
  "strip_data_url (JStr s) =
     (if startswith s ''data:'' then
        (if CHR '','' \<in> set s then Inr (up_to_comma (after_first_comma s))
         else Inl (Raise ''IndexError'' ''list index out of range''))
      else Inr s)
   \<and> (count_list s CHR '','' = 1 \<longrightarrow> up_to_comma (after_first_comma s) = after_first_comma s)
   \<and> (strip_data_url (JStr s) = Inr ref_text \<longrightarrow> strip_data_url today_photo = Inr today_text \<longrightarrow>
        b64decode ref_text = Inr ref_img_data \<longrightarrow> b64decode today_text = Inr today_img_data \<longrightarrow>
        decode_images (JStr s) today_photo = Inr (ref_img_data, today_img_data)
        \<and> decode_images today_photo (JStr s) = Inr (today_img_data, ref_img_data))
   \<and> (startswith s ''data:'' \<longrightarrow> CHR '','' \<notin> set s \<longrightarrow>
        map_of kvs ''reference_photo'' = Some (JStr s) \<longrightarrow>
        map_of kvs ''today_photo'' = Some today_photo \<longrightarrow>
        verify_faces E (Inr (JObj kvs)) w =
          ((JObj [(''match'', JBool False), (''confidence'', JFloat 0),
                  (''error'', JStr ''Invalid base64 image data: list index out of range'')], 400), w))
   \<and> (startswith s ''data:'' \<longrightarrow> CHR '','' \<notin> set s \<longrightarrow>
        map_of kvs ''reference_photo'' = Some ref_field \<longrightarrow>
        map_of kvs ''today_photo'' = Some (JStr s) \<longrightarrow>
        (\<exists>msg. verify_faces E (Inr (JObj kvs)) w =
                 ((JObj [(''match'', JBool False), (''confidence'', JFloat 0),
                         (''error'', JStr (''Invalid base64 image data: '' @ msg))], 400), w)
               \<and> ((\<exists>ref_text. strip_data_url ref_field = Inr ref_text) \<longrightarrow>
                    msg = ''list index out of range'')))"
proof -
  have no_comma: "strip_data_url (JStr s) = Inl (Raise ''IndexError'' ''list index out of range'')"
    if "startswith s ''data:''" "CHR '','' \<notin> set s"
    using that by (simp add: strip_data_url_str)
  have "verify_faces E (Inr (JObj kvs)) w =
          ((JObj [(''match'', JBool False), (''confidence'', JFloat 0),
                  (''error'', JStr ''Invalid base64 image data: list index out of range'')], 400), w)"
    if st: "startswith s ''data:''" "CHR '','' \<notin> set s"
      and k: "map_of kvs ''reference_photo'' = Some (JStr s)"
             "map_of kvs ''today_photo'' = Some today_photo"
  proof -
    have "decode_images (JStr s) today_photo = Inl (Raise ''IndexError'' ''list index out of range'')"
      using no_comma [OF st] by (simp add: decode_images_def)
    from decode_error_400 [OF k this] show ?thesis by simp
  qed
  moreover have "\<exists>msg. verify_faces E (Inr (JObj kvs)) w =
                 ((JObj [(''match'', JBool False), (''confidence'', JFloat 0),
                         (''error'', JStr (''Invalid base64 image data: '' @ msg))], 400), w)
               \<and> ((\<exists>ref_text. strip_data_url ref_field = Inr ref_text) \<longrightarrow>
                    msg = ''list index out of range'')"
    if st: "startswith s ''data:''" "CHR '','' \<notin> set s"
      and k: "map_of kvs ''reference_photo'' = Some ref_field"
             "map_of kvs ''today_photo'' = Some (JStr s)"
  proof (cases "strip_data_url ref_field")
    case (Inl e)
    then have "decode_images ref_field (JStr s) = Inl e" by (simp add: decode_images_def)
    from decode_error_400 [OF k this] show ?thesis using Inl by auto
  next
    case (Inr r)
    then have "decode_images ref_field (JStr s) = Inl (Raise ''IndexError'' ''list index out of range'')"
      using no_comma [OF st] by (simp add: decode_images_def)
    from decode_error_400 [OF k this] show ?thesis by auto
  qed
  ultimately show ?thesis
    by (simp add: strip_data_url_str one_comma_rest decode_images_def)
qed

text \<open>
  The theorem of C4 at a data URL with one comma, at one with two commas and at the
  requests whose reference photo, or whose photo of today, is \<open>data:QUJD\<close>.
\<close>

theorem data_url_segment_witness:
  "strip_data_url (JStr ''data:image/jpeg;base64,QUJD'') = Inr ''QUJD''
   \<and> after_first_comma ''data:image/jpeg;base64,QUJD'' = ''QUJD''
   \<and> decode_images (JStr ''data:image/jpeg;base64,QUJD'') (JStr ''QUJD'') = Inr ([65, 66, 67], [65, 66, 67])
   \<and> strip_data_url (JStr ''data:image/jpeg;base64,QUJD,REVG'') = Inr ''QUJD''
   \<and> verify_faces example_env (example_request (JStr ''data:QUJD'') (JStr ''QUJD'')) empty_world =
        ((JObj [(''match'', JBool False), (''confidence'', JFloat 0),
                (''error'', JStr ''Invalid base64 image data: list index out of range'')], 400),
         empty_world)
   \<and> verify_faces example_env (example_request (JStr ''QUJD'') (JStr ''data:QUJD'')) empty_world =
        ((JObj [(''match'', JBool False), (''confidence'', JFloat 0),
                (''error'', JStr ''Invalid base64 image data: list index out of range'')], 400),
         empty_world)"
proof -
  have a: "after_first_comma ''data:image/jpeg;base64,QUJD'' = ''QUJD''"
    by (simp add: after_first_comma_def)
  have b: "up_to_comma ''QUJD'' = ''QUJD''" "up_to_comma ''QUJD,REVG'' = ''QUJD''"
    by (simp_all add: up_to_comma_def)
  have c: "after_first_comma ''data:image/jpeg;base64,QUJD,REVG'' = ''QUJD,REVG''"
    by (simp add: after_first_comma_def)
  have s: "strip_data_url (JStr ''QUJD'') = Inr ''QUJD''"
    by (simp add: strip_data_url_def startswith_def)
  have w1: "strip_data_url (JStr ''data:image/jpeg;base64,QUJD'') = Inr ''QUJD''
     \<and> decode_images (JStr ''data:image/jpeg;base64,QUJD'') (JStr ''QUJD'') = Inr ([65, 66, 67], [65, 66, 67])"
    using data_url_segment [where s = "''data:image/jpeg;base64,QUJD''" and ref_text = "''QUJD''"
        and today_photo = "JStr ''QUJD''" and today_text = "''QUJD''"
        and ref_img_data = "[65, 66, 67]" and today_img_data = "[65, 66, 67]"] a b s b64decode_QUJD
    by (simp add: startswith_def)
  have w2: "strip_data_url (JStr ''data:image/jpeg;base64,QUJD,REVG'') = Inr ''QUJD''"
    using data_url_segment [where s = "''data:image/jpeg;base64,QUJD,REVG''"] b c
    by (simp add: startswith_def)
  have w3: "verify_faces example_env (example_request (JStr ''data:QUJD'') (JStr ''QUJD'')) empty_world =
        ((JObj [(''match'', JBool False), (''confidence'', JFloat 0),
                (''error'', JStr ''Invalid base64 image data: list index out of range'')], 400),
         empty_world)"
    using data_url_segment [where s = "''data:QUJD''" and today_photo = "JStr ''QUJD''"
        and kvs = "[(''reference_photo'', JStr ''data:QUJD''), (''today_photo'', JStr ''QUJD'')]"
        and E = example_env and w = empty_world]
    by (simp add: startswith_def example_request_def)
  have w4: "verify_faces example_env (example_request (JStr ''QUJD'') (JStr ''data:QUJD'')) empty_world =
        ((JObj [(''match'', JBool False), (''confidence'', JFloat 0),
                (''error'', JStr ''Invalid base64 image data: list index out of range'')], 400),
         empty_world)"
    using data_url_segment [where s = "''data:QUJD''" and ref_field = "JStr ''QUJD''"
        and kvs = "[(''reference_photo'', JStr ''QUJD''), (''today_photo'', JStr ''data:QUJD'')]"
        and E = example_env and w = empty_world] s
    by (auto simp add: startswith_def example_request_def)
  show ?thesis using w1 w2 w3 w4 a by simp
qed

subsection \<open>Failures of the decoding\<close>

lemma quad_pos_a2b_data:
  assumes "quad_pos st < 4"
  shows "quad_pos (a2b_data v st) = (quad_pos st + 1) mod 4"
proof -
  have "quad_pos st = 0 \<or> quad_pos st = 1 \<or> quad_pos st = 2 \<or> quad_pos st = 3"
    using assms by arith
  then show ?thesis by (auto simp add: a2b_data_def)
qed

lemma a2b_scan_no_pad:
  assumes "CHR ''='' \<notin> set s" and "quad_pos st < 4"
  shows "\<exists>st'. a2b_scan s st = Inl st'
           \<and> quad_pos st' = (quad_pos st + length (filter is_b64_char s)) mod 4"
  using assms
proof (induction s arbitrary: st)
  case Nil
  then show ?case by simp
next
  case (Cons c cs)
  have ne: "c \<noteq> CHR ''=''" using Cons.prems(1) by auto
  show ?case
  proof (cases "is_b64_char c")
    case True
    have q: "quad_pos (a2b_data (table_a2b_base64 c) st) < 4"
      using Cons.prems(2) by (simp add: quad_pos_a2b_data)
    from Cons.IH [OF _ q] Cons.prems(1)
    obtain st' where st': "a2b_scan cs (a2b_data (table_a2b_base64 c) st) = Inl st'"
      "quad_pos st' = (quad_pos (a2b_data (table_a2b_base64 c) st) + length (filter is_b64_char cs)) mod 4"
      by auto
    have "quad_pos st' = (quad_pos st + length (filter is_b64_char (c # cs))) mod 4"
      using st'(2) True Cons.prems(2) by (simp add: quad_pos_a2b_data mod_simps)
    moreover have "a2b_scan (c # cs) st = Inl st'"
      using st'(1) True ne by (simp add: is_b64_char_def not_le [symmetric])
    ultimately show ?thesis by blast
  next
    case False
    from Cons.IH [OF _ Cons.prems(2)] Cons.prems(1)
    obtain st' where st': "a2b_scan cs st = Inl st'"
      "quad_pos st' = (quad_pos st + length (filter is_b64_char cs)) mod 4"
      by auto
    have "a2b_scan (c # cs) st = Inl st'"
      using st'(1) False ne by (simp add: is_b64_char_def not_less)
    then show ?thesis using st'(2) False by simp
  qed
qed

text \<open>
  On a string without a pad character the decoder raises exactly when the string has a
  non-ASCII character or the number of its alphabet characters is not a multiple of 4.
\<close>

lemma b64decode_no_pad:
  assumes "CHR ''='' \<notin> set s"
  shows "(\<exists>e. b64decode s = Inl e) \<longleftrightarrow>
           (\<exists>c \<in> set s. 128 \<le> (of_char c :: nat)) \<or> length (filter is_b64_char s) mod 4 \<noteq> 0"
proof -
  from a2b_scan_no_pad [OF assms, of a2b_init]
  obtain st where st: "a2b_scan s a2b_init = Inl st"
    "quad_pos st = length (filter is_b64_char s) mod 4"
    by (auto simp add: a2b_init_def)
  then have "(\<exists>e. a2b_base64 s = Inl e) \<longleftrightarrow> length (filter is_b64_char s) mod 4 \<noteq> 0"
    by (simp add: a2b_base64_def)
  then show ?thesis by (simp add: b64decode_def)
qed

lemma pad_not_b64_char: "\<not> is_b64_char CHR ''=''"
  by (simp add: is_b64_char_def table_a2b_base64_def)

lemma b64_char_ascii: "is_b64_char c \<Longrightarrow> (of_char c :: nat) < 128"
  by (auto simp add: is_b64_char_def table_a2b_base64_def Let_def split: if_splits)

lemma a2b_scan_append:
  "a2b_scan (xs @ ys) st =
     (case a2b_scan xs st of Inl st' \<Rightarrow> a2b_scan ys st' | Inr st' \<Rightarrow> Inr st')"
  by (induction xs arbitrary: st) simp_all

lemma pads_a2b_data: "pads (a2b_data v st) = 0"
  by (simp add: a2b_data_def)

lemma a2b_scan_body:
  assumes "list_all is_b64_char xs" and "quad_pos st < 4" and "pads st = 0"
  shows "\<exists>st'. a2b_scan xs st = Inl st'
           \<and> quad_pos st' = (quad_pos st + length xs) mod 4 \<and> pads st' = 0"
  using assms
proof (induction xs arbitrary: st)
  case Nil
  then show ?case by simp
next
  case (Cons c cs)
  let ?st = "a2b_data (table_a2b_base64 c) st"
  have c: "is_b64_char c" and cs: "list_all is_b64_char cs" using Cons.prems(1) by simp_all
  have ne: "c \<noteq> CHR ''=''" using c pad_not_b64_char by auto
  have q: "quad_pos ?st < 4" "quad_pos ?st = (quad_pos st + 1) mod 4"
    using Cons.prems(2) by (simp_all add: quad_pos_a2b_data)
  from Cons.IH [OF cs q(1) pads_a2b_data]
  obtain st' where st': "a2b_scan cs ?st = Inl st'"
    "quad_pos st' = (quad_pos ?st + length cs) mod 4" "pads st' = 0"
    by blast
  have "a2b_scan (c # cs) st = Inl st'"
    using st'(1) c ne by (simp add: is_b64_char_def not_le [symmetric])
  moreover have "quad_pos st' = (quad_pos st + length (c # cs)) mod 4"
    using st'(2) q(2) by (simp add: mod_simps)
  ultimately show ?case using st'(3) by blast
qed

text \<open>
  The decoder accepts every string that is valid base64; the converse is what fails.
\<close>

lemma valid_base64_decodes:
  assumes "valid_base64 s"
  shows "\<exists>img. b64decode s = Inr img"
proof -
  define body where "body = takeWhile (\<lambda>c. c \<noteq> CHR ''='') s"
  define padding where "padding = dropWhile (\<lambda>c. c \<noteq> CHR ''='') s"
  have s: "s = body @ padding" by (simp add: body_def padding_def)
  have len0: "length s mod 4 = 0"
    and b: "list_all is_b64_char body"
    and p: "length padding \<le> 2" "list_all (\<lambda>c. c = CHR ''='') padding"
    using assms by (simp_all add: valid_base64_def body_def padding_def Let_def)
  have "length s = length body + length padding" by (subst s) simp
  then have len: "(length body + length padding) mod 4 = 0" using len0 by simp
  have ascii: "\<not> (\<exists>c \<in> set s. 128 \<le> (of_char c :: nat))"
  proof
    assume "\<exists>c \<in> set s. 128 \<le> (of_char c :: nat)"
    then obtain c where c: "c \<in> set s" "128 \<le> (of_char c :: nat)" by blast
    then have "c \<in> set body \<or> c \<in> set padding" using s by (metis Un_iff set_append)
    then show False
    proof
      assume "c \<in> set body"
      then have "is_b64_char c" using b by (simp add: list_all_iff)
      then show False using b64_char_ascii c(2) by fastforce
    next
      assume "c \<in> set padding"
      then have "c = CHR ''=''" using p(2) by (simp add: list_all_iff)
      then show False using c(2) by simp
    qed
  qed
  from a2b_scan_body [OF b, of a2b_init]
  obtain st where st: "a2b_scan body a2b_init = Inl st"
    "quad_pos st = length body mod 4" "pads st = 0"
    by (auto simp add: a2b_init_def)
  have scan: "a2b_scan s a2b_init = a2b_scan padding st"
    by (simp add: s a2b_scan_append st(1))
  have cases: "padding = [] \<or> padding = ''='' \<or> padding = ''==''"
  proof (cases padding)
    case Nil
    then show ?thesis by simp
  next
    case (Cons x xs)
    note outer = Cons
    show ?thesis
    proof (cases xs)
      case Nil
      then show ?thesis using outer p(2) by simp
    next
      case (Cons y ys)
      then show ?thesis using outer p by simp
    qed
  qed
  have "\<exists>img. a2b_base64 s = Inr img"
  proof -
    consider "padding = []" | "padding = ''=''" | "padding = ''==''" using cases by blast
    then show ?thesis
    proof cases
      case 1
      then have "quad_pos st = 0" using len st(2) by simp
      then show ?thesis using 1 scan by (simp add: a2b_base64_def)
    next
      case 2
      then have "(length body + 1) mod 4 = 0" using len by simp
      then have "quad_pos st = 3" using st(2) by presburger
      then show ?thesis using 2 scan st(3) by (simp add: a2b_base64_def)
    next
      case 3
      then have "(length body + 2) mod 4 = 0" using len by simp
      then have "quad_pos st = 2" using st(2) by presburger
      then show ?thesis using 3 scan st(3) by (simp add: a2b_base64_def)
    qed
  qed
  then show ?thesis using ascii by (simp add: b64decode_def)
qed

text \<open>
  Claim C5 as stated fails: \<open>QU#JD\<close> is not valid base64, yet the decoder skips the
  character outside the alphabet and returns three bytes, and the request is answered
  with status 200.
\<close>

theorem invalid_base64_accepted:
  "\<not> valid_base64 ''QU#JD''
   \<and> b64decode ''QU#JD'' = Inr [65, 66, 67]
   \<and> fst (verify_faces example_env (example_request (JStr ''QU#JD'') (JStr ''QUJD'')) empty_world) =
       (JObj [(''match'', JBool True), (''confidence'', JFloat (3 / 4)),
              (''distance'', JFloat (1 / 8)), (''threshold'', JFloat (1 / 2))], 200)"
proof -
  have v: "\<not> valid_base64 ''QU#JD''"
    by (simp add: valid_base64_def)
  have d: "b64decode ''QU#JD'' = Inr [65, 66, 67]"
    by (simp add: decoder_defs)
  have di: "decode_images (JStr ''QU#JD'') (JStr ''QUJD'') = Inr ([65, 66, 67], [65, 66, 67])"
    by (simp add: decode_images_def strip_data_url_def startswith_def d b64decode_QUJD)
  have run: "verify_faces example_env (example_request (JStr ''QU#JD'') (JStr ''QUJD'')) empty_world
               = run_verification example_env ''/tmp/tmpref.jpg'' ''/tmp/tmptoday.jpg'' staged_world"
    unfolding example_request_def
    by (rule verify_faces_staged [OF example_keys di stage_example(1) [OF refl refl]
          stage_example(2) [OF refl refl]])
  have "fst (run_verification example_env ''/tmp/tmpref.jpg'' ''/tmp/tmptoday.jpg'' staged_world) =
       (JObj [(''match'', JBool True), (''confidence'', JFloat (3 / 4)),
              (''distance'', JFloat (1 / 8)), (''threshold'', JFloat (1 / 2))], 200)"
    by (simp add: run_verification_def example_env_def example_success Let_def)
  then show ?thesis using v d run by simp
qed

text \<open>
  Claim C5, amended. When both keys are present and \<^verbatim>\<open>base64.b64decode\<close> raises on
  the reference photo, or on today's photo after the reference photo has decoded, each
  after the stripping of a data URL, the response is status 400 with match false,
  confidence 0.0 and the error "Invalid base64 image data: " followed by the text of
  the exception, and the world is unchanged. The decoder runs in its default mode,
  which skips the characters outside the alphabet: on a string without a pad character
  it raises exactly when the string has a non-ASCII character or the number of its
  alphabet characters is not a multiple of 4.
\<close>

theorem decode_failure_400:
  "(map_of kvs ''reference_photo'' = Some reference_photo \<longrightarrow>
    map_of kvs ''today_photo'' = Some today_photo \<longrightarrow>
    strip_data_url reference_photo = Inr ref_text \<longrightarrow>
    strip_data_url today_photo = Inr today_text \<longrightarrow>
    b64decode ref_text = Inl e \<or> (\<exists>ref_img_data. b64decode ref_text = Inr ref_img_data) \<and> b64decode today_text = Inl e \<longrightarrow>
    verify_faces E (Inr (JObj kvs)) w =
      ((JObj [(''match'', JBool False), (''confidence'', JFloat 0),
              (''error'', JStr (''Invalid base64 image data: '' @ exc_str e))], 400), w))
   \<and> (CHR ''='' \<notin> set s \<longrightarrow>
        ((\<exists>e'. b64decode s = Inl e') \<longleftrightarrow>
           (\<exists>c \<in> set s. 128 \<le> (of_char c :: nat)) \<or> length (filter is_b64_char s) mod 4 \<noteq> 0))"
proof -
  have "verify_faces E (Inr (JObj kvs)) w =
      ((JObj [(''match'', JBool False), (''confidence'', JFloat 0),
              (''error'', JStr (''Invalid base64 image data: '' @ exc_str e))], 400), w)"
    if k: "map_of kvs ''reference_photo'' = Some reference_photo"
          "map_of kvs ''today_photo'' = Some today_photo"
      and st: "strip_data_url reference_photo = Inr ref_text"
              "strip_data_url today_photo = Inr today_text"
      and f: "b64decode ref_text = Inl e \<or> (\<exists>ref_img_data. b64decode ref_text = Inr ref_img_data) \<and> b64decode today_text = Inl e"
  proof -
    have "decode_images reference_photo today_photo = Inl e"
      using st f by (auto simp add: decode_images_def)
    then show ?thesis by (rule decode_error_400 [OF k])
  qed
  then show ?thesis using b64decode_no_pad by blast
qed

text \<open>
  The theorem of C5 at a request whose second photo has five alphabet characters, and
  its second part at \<open>QUJDQ\<close> (rejected) and at \<open>QU#JD\<close> (accepted).
\<close>

theorem decode_failure_400_witness:
  "verify_faces example_env (example_request (JStr ''QUJD'') (JStr ''QUJDQ'')) empty_world =
     ((JObj [(''match'', JBool False), (''confidence'', JFloat 0),
             (''error'', JStr ''Invalid base64 image data: Invalid base64-encoded string: number of data characters (5) cannot be 1 more than a multiple of 4'')], 400),
      empty_world)
   \<and> (\<exists>e. b64decode ''QUJDQ'' = Inl e)
   \<and> \<not> (\<exists>e. b64decode ''QU#JD'' = Inl e)"
proof -
  let ?e = "Raise ''binascii.Error'' ''Invalid base64-encoded string: number of data characters (5) cannot be 1 more than a multiple of 4''"
  have s1: "strip_data_url (JStr ''QUJD'') = Inr ''QUJD''" "strip_data_url (JStr ''QUJDQ'') = Inr ''QUJDQ''"
    by (simp_all add: strip_data_url_def startswith_def)
  have d: "b64decode ''QUJDQ'' = Inl ?e"
    by code_simp
  have f: "b64decode ''QUJD'' = Inl ?e \<or> (\<exists>ref_img_data. b64decode ''QUJD'' = Inr ref_img_data) \<and> b64decode ''QUJDQ'' = Inl ?e"
    using d b64decode_QUJD by simp
  have c: "is_b64_char CHR ''Q''" "is_b64_char CHR ''U''" "is_b64_char CHR ''J''" "is_b64_char CHR ''D''"
    "\<not> is_b64_char CHR ''#''"
    by (simp_all add: is_b64_char_def table_a2b_base64_def)
  have w1: "verify_faces example_env (example_request (JStr ''QUJD'') (JStr ''QUJDQ'')) empty_world =
     ((JObj [(''match'', JBool False), (''confidence'', JFloat 0),
             (''error'', JStr (''Invalid base64 image data: '' @ exc_str ?e))], 400),
      empty_world)"
    using decode_failure_400 [where kvs = "[(''reference_photo'', JStr ''QUJD''), (''today_photo'', JStr ''QUJDQ'')]"
        and reference_photo = "JStr ''QUJD''" and today_photo = "JStr ''QUJDQ''"
        and ref_text = "''QUJD''" and today_text = "''QUJDQ''" and e = ?e
        and E = example_env and w = empty_world] s1 f
    by (simp add: example_request_def)
  have w2: "\<exists>e. b64decode ''QUJDQ'' = Inl e"
    using decode_failure_400 [where s = "''QUJDQ''"] c by simp
  have w3: "\<not> (\<exists>e. b64decode ''QU#JD'' = Inl e)"
    using decode_failure_400 [where s = "''QU#JD''"] c by simp
  show ?thesis using w1 w2 w3 by simp
qed

lemma strip_data_url_non_str:
  assumes "\<nexists>s. v = JStr s"
  shows "strip_data_url v =
           Inl (Raise ''AttributeError''
                  ([CHR 0x27] @ type_name v @ [CHR 0x27]
                   @ '' object has no attribute '' @ [CHR 0x27] @ ''startswith'' @ [CHR 0x27]))"
  using assms by (cases v) (simp_all add: strip_data_url_def)

text \<open>
  Claim C10. When both keys are present and the value of \<open>reference_photo\<close> or of
  \<open>today_photo\<close> is not a string, the exception raised in the decoding block is caught
  there: the response is status 400 with match false, confidence 0.0 and an error that
  begins "Invalid base64 image data: ", and the world is unchanged.
\<close>

theorem non_string_field_400:
  assumes "map_of kvs ''reference_photo'' = Some reference_photo"
    and "map_of kvs ''today_photo'' = Some today_photo"
    and "(\<nexists>s. reference_photo = JStr s) \<or> (\<nexists>s. today_photo = JStr s)"
  shows "\<exists>msg. verify_faces E (Inr (JObj kvs)) w =
           ((JObj [(''match'', JBool False), (''confidence'', JFloat 0),
                   (''error'', JStr (''Invalid base64 image data: '' @ msg))], 400), w)"
proof -
  have "\<exists>e. decode_images reference_photo today_photo = Inl e"
  proof (cases "\<exists>s. reference_photo = JStr s")
    case False
    then show ?thesis
      by (simp add: decode_images_def strip_data_url_non_str)
  next
    case True
    then have "\<nexists>s. today_photo = JStr s" using assms(3) by blast
    then show ?thesis
      by (simp add: decode_images_def strip_data_url_non_str split: sum.splits)
  qed
  then obtain e where "decode_images reference_photo today_photo = Inl e" ..
  from decode_error_400 [OF assms(1,2) this] show ?thesis by blast
qed

text \<open>
  The theorem of C10 at a request whose fields are the number 5 and null.
\<close>

theorem non_string_field_400_witness:
  "\<exists>msg. verify_faces example_env (example_request (JInt 5) JNull) empty_world =
           ((JObj [(''match'', JBool False), (''confidence'', JFloat 0),
                   (''error'', JStr (''Invalid base64 image data: '' @ msg))], 400), empty_world)"
proof -
  have "(\<nexists>s. JInt 5 = JStr s) \<or> (\<nexists>s. JNull = JStr s)" by simp
  from non_string_field_400 [OF example_keys this, of example_env empty_world]
  show ?thesis by (simp add: example_request_def)
qed

subsection \<open>Missing fields\<close>

text \<open>
  Claim C6 as stated fails for an absent payload: for a request without a body
  \<^verbatim>\<open>request.json\<close> raises inside the outer \<^verbatim>\<open>try\<close>, and the response is the
  status 500 of the outer handler, not the status 400.
\<close>

theorem absent_payload_500:
  "verify_faces example_env absent_payload empty_world =
     ((JObj [(''match'', JBool False), (''confidence'', JFloat 0),
             (''error'', JStr ''Server error: 400 Bad Request: The browser (or proxy) sent a request that this server could not understand.''),
             (''traceback'', JNull)], 500),
      empty_world)"
  by (simp add: verify_faces_def verify_faces_body_def absent_payload_def example_env_def)

text \<open>
  Claim C6, amended. When the parsed payload, the value of \<^verbatim>\<open>request.json\<close>, is
  \<^verbatim>\<open>None\<close> or another value Python takes for false, or is an object without the key
  \<open>reference_photo\<close> or without the key \<open>today_photo\<close>, the response is status 400
  with the error "Missing reference_photo or today_photo", match false and confidence
  0.0. When the payload is absent, so that \<^verbatim>\<open>request.json\<close> raises, the response is
  status 500 with the error "Server error: " followed by the text of the exception,
  match false and confidence 0.0. In both cases the world is unchanged: no file is
  staged and the capability is not called.
\<close>

theorem missing_fields_400:
  "(\<not> truthy data
    \<or> (\<exists>kvs. data = JObj kvs
          \<and> (''reference_photo'' \<notin> fst ` set kvs \<or> ''today_photo'' \<notin> fst ` set kvs))
    \<longrightarrow> verify_faces E (Inr data) w =
          ((JObj [(''match'', JBool False), (''confidence'', JFloat 0),
                  (''error'', JStr ''Missing reference_photo or today_photo'')], 400), w))
   \<and> verify_faces E (Inl e) w =
        ((JObj [(''match'', JBool False), (''confidence'', JFloat 0),
                (''error'', JStr (''Server error: '' @ exc_str e)),
                (''traceback'', if app_debug E then JStr (format_exc E e) else JNull)], 500), w)"
proof -
  have "verify_faces E (Inr data) w =
          ((JObj [(''match'', JBool False), (''confidence'', JFloat 0),
                  (''error'', JStr ''Missing reference_photo or today_photo'')], 400), w)"
    if "\<not> truthy data
        \<or> (\<exists>kvs. data = JObj kvs
              \<and> (''reference_photo'' \<notin> fst ` set kvs \<or> ''today_photo'' \<notin> fst ` set kvs))"
  proof -
    have "missing_fields data = Inr True"
      using that by (auto simp add: missing_fields_def)
    then show ?thesis
      by (simp add: verify_faces_def verify_faces_body_def error_body_def)
  qed
  moreover have "verify_faces E (Inl e) w =
        ((JObj [(''match'', JBool False), (''confidence'', JFloat 0),
                (''error'', JStr (''Server error: '' @ exc_str e)),
                (''traceback'', if app_debug E then JStr (format_exc E e) else JNull)], 500), w)"
    by (simp add: verify_faces_def verify_faces_body_def)
  ultimately show ?thesis by blast
qed

text \<open>
  The theorem of C6 at an object without \<open>today_photo\<close>, at the parsed payload
  \<^verbatim>\<open>None\<close> and at a \<^verbatim>\<open>request.json\<close> that raises.
\<close>

theorem missing_fields_400_witness:
  "verify_faces example_env (Inr (JObj [(''reference_photo'', JStr ''QUJD'')])) empty_world =
     ((JObj [(''match'', JBool False), (''confidence'', JFloat 0),
             (''error'', JStr ''Missing reference_photo or today_photo'')], 400), empty_world)
   \<and> verify_faces example_env (Inr JNull) empty_world =
     ((JObj [(''match'', JBool False), (''confidence'', JFloat 0),
             (''error'', JStr ''Missing reference_photo or today_photo'')], 400), empty_world)
   \<and> verify_faces example_env (Inl (Raise ''BadRequest'' ''400 Bad Request'')) empty_world =
     ((JObj [(''match'', JBool False), (''confidence'', JFloat 0),
             (''error'', JStr ''Server error: 400 Bad Request''),
             (''traceback'', JNull)], 500), empty_world)"
proof -
  have "''today_photo'' \<notin> fst ` set [(''reference_photo'', JStr ''QUJD'')]" by simp
  then have h1: "\<not> truthy (JObj [(''reference_photo'', JStr ''QUJD'')])
           \<or> (\<exists>kvs. JObj [(''reference_photo'', JStr ''QUJD'')] = JObj kvs
                 \<and> (''reference_photo'' \<notin> fst ` set kvs \<or> ''today_photo'' \<notin> fst ` set kvs))"
    by blast
  have h2: "\<not> truthy JNull
           \<or> (\<exists>kvs. JNull = JObj kvs
                 \<and> (''reference_photo'' \<notin> fst ` set kvs \<or> ''today_photo'' \<notin> fst ` set kvs))"
    by simp
  have w1: "verify_faces example_env (Inr (JObj [(''reference_photo'', JStr ''QUJD'')])) empty_world =
     ((JObj [(''match'', JBool False), (''confidence'', JFloat 0),
             (''error'', JStr ''Missing reference_photo or today_photo'')], 400), empty_world)"
    using missing_fields_400 [where data = "JObj [(''reference_photo'', JStr ''QUJD'')]"
        and E = example_env and w = empty_world] h1
    by blast
  have w2: "verify_faces example_env (Inr JNull) empty_world =
     ((JObj [(''match'', JBool False), (''confidence'', JFloat 0),
             (''error'', JStr ''Missing reference_photo or today_photo'')], 400), empty_world)"
    using missing_fields_400 [where data = JNull and E = example_env and w = empty_world] h2
    by blast
  have w3: "verify_faces example_env (Inl (Raise ''BadRequest'' ''400 Bad Request'')) empty_world =
     ((JObj [(''match'', JBool False), (''confidence'', JFloat 0),
             (''error'', JStr ''Server error: 400 Bad Request''),
             (''traceback'', JNull)], 500), empty_world)"
    using missing_fields_400 [where E = example_env and w = empty_world
        and e = "Raise ''BadRequest'' ''400 Bad Request''"]
    by (simp add: example_env_def)
  show ?thesis using w1 w2 w3 by simp
qed

subsection \<open>The outer handler\<close>

lemma stage_and_verify_Inl:
  assumes "stage_and_verify E a b w = (Inl e, w')"
  shows "stage_file E 0 a w = (Inl e, w')
         \<or> (\<exists>p w1. stage_file E 0 a w = (Inr p, w1) \<and> stage_file E 1 b w1 = (Inl e, w'))"
  using assms by (auto simp add: stage_and_verify_def split: prod.splits sum.splits)

text \<open>
  The exceptions that leave the body of the outer \<^verbatim>\<open>try\<close>: one raised by
  \<^verbatim>\<open>request.json\<close>, by the test of the keys, by the two subscriptions, or by the
  staging of a temporary file. A failure of the decoding or of the capability never
  does.
\<close>

lemma outer_failure_cases:
  assumes "verify_faces_body E rq w = (Inl e, w')"
  shows "rq = Inl e
         \<or> (\<exists>data. rq = Inr data
               \<and> (missing_fields data = Inl e
                    \<or> py_getitem data ''reference_photo'' = Inl e
                    \<or> py_getitem data ''today_photo'' = Inl e
                    \<or> (\<exists>a b. stage_and_verify E a b w = (Inl e, w'))))"
  using assms
  by (auto simp add: verify_faces_body_def split: sum.splits bool.splits prod.splits)

text \<open>
  Claim C7. When an exception leaves the body of the outer \<^verbatim>\<open>try\<close>, the response is
  status 500 with match false, confidence 0.0, the error "Server error: " followed by
  the text of the exception, and a field \<open>traceback\<close> that holds the stack trace in
  debug mode and is null otherwise.
\<close>

theorem outer_failure_500:
  assumes "verify_faces_body E request_json w = (Inl e, w')"
  shows "fst (verify_faces E request_json w) =
           (JObj [(''match'', JBool False), (''confidence'', JFloat 0),
                  (''error'', JStr (''Server error: '' @ exc_str e)),
                  (''traceback'', if app_debug E then JStr (format_exc E e) else JNull)], 500)"
  using assms by (simp add: verify_faces_def)

text \<open>
  The theorem of C7 at a payload that is the number 5, where the test
  \<^verbatim>\<open>'reference_photo' not in data\<close> raises a \<^verbatim>\<open>TypeError\<close>: outside debug mode
  and in debug mode.
\<close>

theorem outer_failure_500_witness:
  "verify_faces_body example_env (Inr (JInt 5)) empty_world =
     (Inl (Raise ''TypeError'' (''argument of type '' @ [CHR 0x27] @ ''int'' @ [CHR 0x27] @ '' is not iterable'')),
      empty_world)
   \<and> fst (verify_faces example_env (Inr (JInt 5)) empty_world) =
       (JObj [(''match'', JBool False), (''confidence'', JFloat 0),
              (''error'', JStr (''Server error: argument of type '' @ [CHR 0x27] @ ''int'' @ [CHR 0x27] @ '' is not iterable'')),
              (''traceback'', JNull)], 500)
   \<and> fst (verify_faces (example_env\<lparr>app_debug := True\<rparr>) (Inr (JInt 5)) empty_world) =
       (JObj [(''match'', JBool False), (''confidence'', JFloat 0),
              (''error'', JStr (''Server error: argument of type '' @ [CHR 0x27] @ ''int'' @ [CHR 0x27] @ '' is not iterable'')),
              (''traceback'', JStr ''Traceback (most recent call last): TypeError'')], 500)"
proof -
  have h: "verify_faces_body E (Inr (JInt 5)) empty_world =
     (Inl (Raise ''TypeError'' (''argument of type '' @ [CHR 0x27] @ ''int'' @ [CHR 0x27] @ '' is not iterable'')),
      empty_world)" for E
    by (simp add: verify_faces_body_def missing_fields_def)
  show ?thesis
    using h [of example_env] outer_failure_500 [OF h [of example_env]]
      outer_failure_500 [OF h [of "example_env\<lparr>app_debug := True\<rparr>"]]
    by (simp add: example_env_def)
qed

subsection \<open>The health endpoint\<close>

text \<open>
  Claim C8. GET /health answers with status 200 and the body
  \<open>{status: "ok", service: "face-recognition-api"}\<close> in every state of the world, leaves
  the world as it is, and answers the same after any call of /verify: the handler reads
  no input and has no branch that fails.
\<close>

theorem health_ok:
  "fst (health w) = (JObj [(''status'', JStr ''ok''), (''service'', JStr ''face-recognition-api'')], 200)
   \<and> snd (health w) = w
   \<and> fst (health (snd (verify_faces E request_json w))) = fst (health w)"
  by (simp add: health_def)

subsection \<open>Temporary files\<close>

text \<open>
  The cleanup of the \<^verbatim>\<open>finally\<close> block. A failure of \<^verbatim>\<open>os.unlink\<close> never changes
  the response, and a request that has staged both files and meets no such failure
  leaves the file system as it found it.
\<close>

lemma stage_file_unlink_fault:
  "stage_file (E\<lparr>unlink_fault := f\<rparr>) n img w = stage_file E n img w"
  by (simp add: stage_file_def Let_def split: sum.splits)

lemma run_verification_unlink_fault:
  "fst (run_verification (E\<lparr>unlink_fault := f\<rparr>) p q w) = fst (run_verification E p q w)"
  by (simp add: run_verification_def Let_def)

lemma stage_and_verify_fst:
  "fst (stage_and_verify E a b w) =
     (case stage_file E 0 a w of
        (Inl e, w1) \<Rightarrow> Inl e
      | (Inr p, w1) \<Rightarrow>
          (case stage_file E 1 b w1 of
             (Inl e, w2) \<Rightarrow> Inl e
           | (Inr q, w2) \<Rightarrow> Inr (fst (run_verification E p q w2))))"
  by (simp add: stage_and_verify_def split: prod.splits sum.splits)

lemma stage_and_verify_unlink_fault:
  "fst (stage_and_verify (E\<lparr>unlink_fault := f\<rparr>) a b w) = fst (stage_and_verify E a b w)"
  by (simp add: stage_and_verify_fst stage_file_unlink_fault run_verification_unlink_fault
      split: prod.splits sum.splits)

lemma verify_faces_body_fst:
  "fst (verify_faces_body E rq w) =
     (case rq of
        Inl e \<Rightarrow> Inl e
      | Inr data \<Rightarrow>
          (case missing_fields data of
             Inl e \<Rightarrow> Inl e
           | Inr True \<Rightarrow> Inr (error_body ''Missing reference_photo or today_photo'', 400)
           | Inr False \<Rightarrow>
               (case py_getitem data ''reference_photo'' of
                  Inl e \<Rightarrow> Inl e
                | Inr reference_photo \<Rightarrow>
                    (case py_getitem data ''today_photo'' of
                       Inl e \<Rightarrow> Inl e
                     | Inr today_photo \<Rightarrow>
                         (case decode_images reference_photo today_photo of
                            Inl e \<Rightarrow> Inr (error_body (''Invalid base64 image data: '' @ exc_str e), 400)
                          | Inr (ref_img_data, today_img_data) \<Rightarrow>
                              fst (stage_and_verify E ref_img_data today_img_data w))))))"
  by (simp add: verify_faces_body_def split: prod.splits sum.splits bool.splits)

lemma verify_faces_fst:
  "fst (verify_faces E rq w) =
     (case fst (verify_faces_body E rq w) of
        Inr resp \<Rightarrow> resp
      | Inl e \<Rightarrow>
          (JObj [(''match'', JBool False), (''confidence'', JFloat 0),
                 (''error'', JStr (''Server error: '' @ exc_str e)),
                 (''traceback'', if app_debug E then JStr (format_exc E e) else JNull)], 500))"
  by (simp add: verify_faces_def split: prod.splits sum.splits)

lemma cleanup_failure_keeps_response:
  "fst (verify_faces (E\<lparr>unlink_fault := f\<rparr>) rq w) = fst (verify_faces E rq w)"
  by (simp add: verify_faces_fst verify_faces_body_fst stage_and_verify_unlink_fault
      split: prod.splits sum.splits bool.splits)

lemma stage_file_Inr:
  assumes "stage_file E n img w = (Inr p, w')"
  shows "files w p = None \<and> files w' = (files w)(p \<mapsto> img)"
  using assms by (auto simp add: stage_file_def Let_def split: sum.splits if_splits option.splits)

lemma cleanup_removes:
  assumes "unlink_fault E p = None" and "unlink_fault E q = None"
    and "files w p \<noteq> None" and "files w q \<noteq> None"
  shows "files (cleanup E p q w) = (files w)(p := None, q := None)"
  using assms by (auto simp add: cleanup_def os_unlink_def Let_def)

lemma staged_files_removed:
  assumes "map_of kvs ''reference_photo'' = Some reference_photo"
    and "map_of kvs ''today_photo'' = Some today_photo"
    and "decode_images reference_photo today_photo = Inr (ref_img_data, today_img_data)"
    and "stage_file E 0 ref_img_data w = (Inr ref_path, w1)"
    and "stage_file E 1 today_img_data w1 = (Inr today_path, w2)"
    and "unlink_fault E ref_path = None" and "unlink_fault E today_path = None"
  shows "files (snd (verify_faces E (Inr (JObj kvs)) w)) = files w"
proof -
  have run: "verify_faces E (Inr (JObj kvs)) w = run_verification E ref_path today_path w2"
    using assms(1-5) by (rule verify_faces_staged)
  from stage_file_Inr [OF assms(4)] have f1: "files w ref_path = None"
    "files w1 = (files w)(ref_path \<mapsto> ref_img_data)" by simp_all
  from stage_file_Inr [OF assms(5)] have f2: "files w1 today_path = None"
    "files w2 = (files w1)(today_path \<mapsto> today_img_data)" by simp_all
  have ne: "ref_path \<noteq> today_path" using f1(2) f2(1) by auto
  have "files w today_path = None" using f1(2) f2(1) ne by (auto split: if_splits)
  let ?w = "w2\<lparr>calls := calls w2 @ [Verified ref_path today_path]\<rparr>"
  have "files (cleanup E ref_path today_path ?w) = (files ?w)(ref_path := None, today_path := None)"
    using assms(6,7) f1(2) f2(2) ne by (intro cleanup_removes) auto
  also have "\<dots> = files w"
    using f1 f2 \<open>files w today_path = None\<close> by auto
  finally show ?thesis using run by (simp add: run_verification_def Let_def)
qed

text \<open>
  Claim C2 fails on the code. The two temporary files are created before the
  \<^verbatim>\<open>try\<close> whose \<^verbatim>\<open>finally\<close> block removes them. When the write to the second
  file fails, the exception reaches the outer handler: the response is the status 500
  "Server error", no \<^verbatim>\<open>os.unlink\<close> is called, and the reference image (and the
  empty second file) are still in the file system after the response.
\<close>

theorem staged_file_left_behind:
  "verify_faces disk_full_env (example_request (JStr ''QUJD'') (JStr ''QUJD'')) empty_world =
     ((JObj [(''match'', JBool False), (''confidence'', JFloat 0),
             (''error'', JStr ''Server error: [Errno 28] No space left on device''),
             (''traceback'', JNull)], 500),
      \<lparr>files = (\<lambda>p. None)(''/tmp/tmpref.jpg'' \<mapsto> [65, 66, 67], ''/tmp/tmptoday.jpg'' \<mapsto> []),
       calls = [Created ''/tmp/tmpref.jpg'', Wrote ''/tmp/tmpref.jpg'' [65, 66, 67],
                Created ''/tmp/tmptoday.jpg'']\<rparr>)"
proof -
  have "stage_and_verify disk_full_env [65, 66, 67] [65, 66, 67] empty_world =
     (Inl (Raise ''OSError'' ''[Errno 28] No space left on device''),
      \<lparr>files = (\<lambda>p. None)(''/tmp/tmpref.jpg'' \<mapsto> [65, 66, 67], ''/tmp/tmptoday.jpg'' \<mapsto> []),
       calls = [Created ''/tmp/tmpref.jpg'', Wrote ''/tmp/tmpref.jpg'' [65, 66, 67],
                Created ''/tmp/tmptoday.jpg'']\<rparr>)"
    by (simp add: stage_and_verify_def stage_file_def disk_full_env_def example_env_def
        empty_world_def)
  then show ?thesis
    by (simp add: verify_faces_def verify_faces_body_fields [OF example_keys] example_request_def
        decode_images_example disk_full_env_def example_env_def)
qed

text \<open>
  Both calls of \<^verbatim>\<open>os.unlink\<close> stand in one \<^verbatim>\<open>try\<close>: when the first one raises,
  the second file is not removed although nothing prevents its removal.
\<close>

lemma second_file_left_after_unlink_failure:
  "verify_faces unlink_fault_env (example_request (JStr ''QUJD'') (JStr ''QUJD'')) empty_world =
     ((JObj [(''match'', JBool True), (''confidence'', JFloat (3 / 4)),
             (''distance'', JFloat (1 / 8)), (''threshold'', JFloat (1 / 2))], 200),
      \<lparr>files = (\<lambda>p. None)(''/tmp/tmpref.jpg'' \<mapsto> [65, 66, 67], ''/tmp/tmptoday.jpg'' \<mapsto> [65, 66, 67]),
       calls = [Created ''/tmp/tmpref.jpg'', Wrote ''/tmp/tmpref.jpg'' [65, 66, 67],
                Created ''/tmp/tmptoday.jpg'', Wrote ''/tmp/tmptoday.jpg'' [65, 66, 67],
                Verified ''/tmp/tmpref.jpg'' ''/tmp/tmptoday.jpg'', Unlinked ''/tmp/tmpref.jpg'']\<rparr>)"
proof -
  have e: "tmp_name unlink_fault_env = tmp_name example_env"
          "tmp_write unlink_fault_env = tmp_write example_env"
    by (simp_all add: unlink_fault_env_def)
  have "verify_faces unlink_fault_env (example_request (JStr ''QUJD'') (JStr ''QUJD'')) empty_world
          = run_verification unlink_fault_env ''/tmp/tmpref.jpg'' ''/tmp/tmptoday.jpg'' staged_world"
    unfolding example_request_def
    by (rule verify_faces_staged [OF example_keys decode_images_example stage_example(1) [OF e]
          stage_example(2) [OF e]])
  then show ?thesis
    by (simp add: run_verification_def unlink_fault_env_def example_env_def example_success
        cleanup_def os_unlink_def staged_world_def Let_def)
qed

end
